theory Spec2Isabelle
  imports Main
begin

section \<open>Strings, paths and JavaScript values\<close>

text \<open>
  The extension (\<^verbatim>\<open>src/extension.ts\<close>) keeps a \<^verbatim>\<open>.csproj\<close> project file in step with
  the files of a workspace. Strings are \<open>string\<close>; the three prompt answers and the
  quiet window of the deletion debounce are the constants of the source.
\<close>

definition YES :: string where "YES = ''Yes''"
definition NO :: string where "NO = ''Not Now''"
definition NEVER :: string where "NEVER = ''Never For This File''"

definition debounceDeleteTime :: nat where "debounceDeleteTime = 2000"

text \<open>
  \<^verbatim>\<open>fsPath.endsWith('.csproj')\<close> and the test \<^verbatim>\<open>/(\/|\\)/.test(fsPath)\<close>: the path
  holds a slash or a backslash.
\<close>

definition endsWith :: "string \<Rightarrow> string \<Rightarrow> bool" where
  "endsWith s suf = (length suf \<le> length s \<and> drop (length s - length suf) s = suf)"

definition hasSeparator :: "string \<Rightarrow> bool" where
  "hasSeparator p = (CHR ''/'' \<in> set p \<or> CHR 0x5C \<in> set p)"

text \<open>
  Node's \<^verbatim>\<open>path.basename\<close> and \<^verbatim>\<open>path.extname\<close> (library functions, POSIX flavour):
  the base name is the last component with trailing slashes dropped; the extension of a
  component runs from its last dot to its end, and is empty when there is no dot, when
  the only dot is the first character, or when the component is \<^verbatim>\<open>..\<close>.
\<close>

definition basename :: "string \<Rightarrow> string" where
  "basename p =
     rev (takeWhile (\<lambda>c. c \<noteq> CHR ''/'') (dropWhile (\<lambda>c. c = CHR ''/'') (rev p)))"

definition extname :: "string \<Rightarrow> string" where
  "extname p =
     (let b = basename p;
          tail = takeWhile (\<lambda>c. c \<noteq> CHR ''.'') (rev b)
      in if CHR ''.'' \<notin> set b then []
         else if length tail + 1 = length b then []
         else if b = ''..'' then []
         else CHR ''.'' # rev tail)"

text \<open>
  A template literal prints a number in decimal (\<^verbatim>\<open>${filePaths.length}\<close>).
\<close>

definition digit :: "nat \<Rightarrow> char" where
  "digit d = ''0123456789'' ! (d mod 10)"

function show_nat :: "nat \<Rightarrow> string" where
  "show_nat n = (if n < 10 then [digit n] else show_nat (n div 10) @ [digit n])"
  by pat_completeness auto
termination
  by (relation "measure id") auto

declare show_nat.simps [simp del]

text \<open>
  Reading a decimal numeral: the value of a digit character, and of a string of digits,
  most significant digit first.
\<close>

definition isDigit :: "char \<Rightarrow> bool" where
  "isDigit c = (c \<in> set ''0123456789'')"

definition digit_value :: "char \<Rightarrow> nat" where
  "digit_value c = of_char c - 48"

definition decimal_value :: "string \<Rightarrow> nat" where
  "decimal_value ds = foldl (\<lambda>a c. 10 * a + digit_value c) 0 ds"

section \<open>Item types\<close>

text \<open>
  \<^verbatim>\<open>type ItemType = string | { [extension: string]: string }\<close>: one tag for every file,
  or an object from extensions to tags, here an association list read with \<open>map_of\<close>
  (the keys of an object are distinct).
\<close>

datatype ItemType = Uniform string | ByExtension "(string \<times> string) list"

text \<open>
  \<^verbatim>\<open>a || b\<close> on values that are a string or \<^verbatim>\<open>undefined\<close>: both \<^verbatim>\<open>undefined\<close> and the
  empty string are falsy, so the right operand is taken for either. \<open>js_or_str\<close> is the
  operator with a string literal on the right.
\<close>

definition js_or :: "string option \<Rightarrow> string option \<Rightarrow> string option" where
  "js_or a b = (case a of None \<Rightarrow> b | Some t \<Rightarrow> if t = [] then b else Some t)"

definition js_or_str :: "string option \<Rightarrow> string \<Rightarrow> string" where
  "js_or_str a d = (case a of None \<Rightarrow> d | Some t \<Rightarrow> if t = [] then d else t)"

text \<open>
  \<^verbatim>\<open>
  function getTypeForFile(fileName: string, itemType: ItemType): string {
      const extension = path.extname(fileName)
      return typeof itemType === 'string'
          ? itemType
          : itemType[extension] || itemType['*'] || 'Content'
  }
  \<close>
\<close>

fun getTypeForFile :: "string \<Rightarrow> ItemType \<Rightarrow> string" where
  "getTypeForFile fileName (Uniform tag) = tag"
| "getTypeForFile fileName (ByExtension m) =
     (let extension = extname fileName
      in js_or_str (js_or (map_of m extension) (map_of m ''*'')) ''Content'')"

text \<open>The default of the \<^verbatim>\<open>itemType\<close> setting, as \<^verbatim>\<open>pickActions[YES]\<close> passes it.\<close>

definition defaultItemType :: ItemType where
  "defaultItemType = ByExtension [(''*'', ''Content''), (''.ts'', ''TypeScriptCompile'')]"

text \<open>
  Item-type resolution as the specification words it: the tag of the extension when the
  map has the extension as a key, else the tag of the wildcard key when the map has
  it, else the built-in default.
\<close>

fun resolveItemType_spec :: "string \<Rightarrow> ItemType \<Rightarrow> string" where
  "resolveItemType_spec fileName (Uniform tag) = tag"
| "resolveItemType_spec fileName (ByExtension m) =
     (case map_of m (extname fileName) of
        Some tag \<Rightarrow> tag
      | None \<Rightarrow> (case map_of m ''*'' of Some tag \<Rightarrow> tag | None \<Rightarrow> ''Content''))"

section \<open>The state of the extension and its collaborators\<close>

text \<open>
  An exception is a value. \<open>NoCsprojError\<close> is the class \<^verbatim>\<open>CsprojUtil.NoCsprojError\<close> that
  the catch blocks test with \<^verbatim>\<open>instanceof\<close>; every other exception is \<open>OtherError\<close>.
  Each carries the text of \<^verbatim>\<open>err.toString()\<close>.
\<close>

datatype error = NoCsprojError string | OtherError string

fun toString :: "error \<Rightarrow> string" where
  "toString (NoCsprojError msg) = msg"
| "toString (OtherError msg) = msg"

fun isNoCsprojError :: "error \<Rightarrow> bool" where
  "isNoCsprojError (NoCsprojError msg) = True"
| "isNoCsprojError (OtherError msg) = False"

text \<open>
  \<^verbatim>\<open>interface Csproj { fsPath: string; name: string; xml: XML }\<close>. The XML tree is a
  mutable object reached through the handle, so it lives in the state, under the
  descriptor's path; an item of the tree is its \<^verbatim>\<open>Include\<close> path and its tag.
\<close>

record Csproj =
  fsPath :: string
  name :: string

type_synonym items = "(string \<times> string) list"

type_synonym CsprojAndFile = "Csproj \<times> string"

record StatusBarItem =
  item_text :: string
  item_tooltip :: string
  item_command :: string
  item_shown :: bool

datatype jsval = Undefined | Bool bool | Str string | Item StatusBarItem

fun truthy :: "jsval \<Rightarrow> bool" where
  "truthy Undefined = False"
| "truthy (Bool b) = b"
| "truthy (Str s) = (s \<noteq> [])"
| "truthy (Item i) = True"

fun js_string :: "jsval \<Rightarrow> string" where
  "js_string Undefined = ''undefined''"
| "js_string (Bool b) = (if b then ''true'' else ''false'')"
| "js_string (Str s) = s"
| "js_string (Item i) = ''[object Object]''"

fun arg :: "jsval list \<Rightarrow> nat \<Rightarrow> jsval" where
  "arg [] n = Undefined"
| "arg (v # vs) 0 = v"
| "arg (v # vs) (Suc n) = arg vs n"

text \<open>
  What the extension does to the outside, in order: console output, messages and
  prompts (with the items offered), commands registered and executed, the calls into
  \<^verbatim>\<open>CsprojUtil\<close>, and the debounce timer invoking its function.
\<close>

datatype event =
    ConsoleLog string
  | ConsoleTrace error
  | ShowInformationMessage string "string list"
  | ShowWarningMessage string "string list"
  | ShowErrorMessage string
  | Register string
  | ExecuteCommand string string
  | ForFile string
  | AddFile string string string
  | RemoveFile string string
  | Persist string
  | DisableInvalidation
  | EnableInvalidation
  | DebounceInvoke

text \<open>
  The mutable state: the \<^verbatim>\<open>csproj.ignorePaths\<close> entry of the global state
  (\<open>None\<close> when it was never stored), the module variable \<^verbatim>\<open>_csprojRemovals\<close>, the
  pending debounce timer (its deadline on a logical clock, in milliseconds), the
  invalidation flag of \<^verbatim>\<open>CsprojUtil\<close>, the parsed trees and the files on disk by
  descriptor path, the flushes that are suspended at their confirmation (each is the
  array \<^verbatim>\<open>removals\<close> its continuation holds), the two module variables of
  \<^verbatim>\<open>statusbar.ts\<close>, and the trace.
\<close>

record state =
  ignorePaths :: "string list option"
  csprojRemovals :: "CsprojAndFile list"
  timer :: "nat option"
  clock :: nat
  invalidationEnabled :: bool
  xml :: "string \<Rightarrow> items"
  disk :: "string \<Rightarrow> items"
  awaiting :: "CsprojAndFile list list"
  statusBarItem :: "StatusBarItem option"
  statusBarItemVisible :: bool
  trace :: "event list"

text \<open>A computation returns a value or throws, and leaves a state either way.\<close>

type_synonym 'a comp = "state \<Rightarrow> (error + 'a) \<times> state"

definition ok :: "'a \<Rightarrow> 'a comp" where
  "ok x s = (Inr x, s)"

definition throw :: "error \<Rightarrow> 'a comp" where
  "throw e s = (Inl e, s)"

definition bind :: "'a comp \<Rightarrow> ('a \<Rightarrow> 'b comp) \<Rightarrow> 'b comp" where
  "bind m f s = (case m s of (Inl e, s') \<Rightarrow> (Inl e, s') | (Inr x, s') \<Rightarrow> f x s')"

definition catch :: "'a comp \<Rightarrow> (error \<Rightarrow> 'a comp) \<Rightarrow> 'a comp" where
  "catch m h s = (case m s of (Inl e, s') \<Rightarrow> h e s' | (Inr x, s') \<Rightarrow> (Inr x, s'))"

definition emit :: "event \<Rightarrow> unit comp" where
  "emit ev s = (Inr (), s\<lparr>trace := trace s @ [ev]\<rparr>)"

section \<open>The status bar module\<close>

text \<open>
  \<^verbatim>\<open>src/statusbar.ts\<close>. \<^verbatim>\<open>_statusBarItem\<close> is undefined until an item is created, and
  assigning to a property of \<^verbatim>\<open>undefined\<close> throws a TypeError.
\<close>

definition displayStatusBarItem :: "jsval list \<Rightarrow> jsval comp" where
  "displayStatusBarItem args s =
     (let csprojName = js_string (arg args 0);
          contained = (case arg args 1 of Undefined \<Rightarrow> False | v \<Rightarrow> truthy v)
      in case statusBarItem s of
           None \<Rightarrow> (Inl (OtherError ''TypeError: Cannot set properties of undefined''), s)
         | Some i \<Rightarrow>
             (let t = (if contained then ''Contained in '' @ csprojName
                       else ''Add to '' @ csprojName)
              in (Inr Undefined,
                  s\<lparr>statusBarItem := Some (i\<lparr>item_text := t, item_tooltip := t, item_shown := True\<rparr>),
                    statusBarItemVisible := True\<rparr>)))"

definition hideStatusBarItem :: "jsval list \<Rightarrow> jsval comp" where
  "hideStatusBarItem args s =
     (case statusBarItem s of
        None \<Rightarrow> (Inl (OtherError ''TypeError: Cannot set properties of undefined''), s)
      | Some i \<Rightarrow>
          (Inr Undefined,
           s\<lparr>statusBarItem := Some (i\<lparr>item_text := [], item_shown := False\<rparr>),
             statusBarItemVisible := False\<rparr>))"

definition createStatusBarItem :: "jsval list \<Rightarrow> jsval comp" where
  "createStatusBarItem args s =
     (let s1 = (case statusBarItem s of
                  None \<Rightarrow> s
                | Some old \<Rightarrow> s\<lparr>statusBarItemVisible := False\<rparr>);
          item = \<lparr>item_text = [], item_tooltip = [],
                  item_command = ''extension.csproj.add'', item_shown = False\<rparr>
      in (Inr (Item item), s1\<lparr>statusBarItem := Some item\<rparr>))"

definition visible :: "jsval list \<Rightarrow> jsval comp" where
  "visible args s = (Inr (Bool (statusBarItemVisible s)), s)"

text \<open>
  The names \<^verbatim>\<open>statusbar.ts\<close> exports, each with its function. A namespace object maps
  property names to functions of the module.
\<close>

datatype sbfun = DisplayStatusBarItem | HideStatusBarItem | CreateStatusBarItem | Visible

fun sb_apply :: "sbfun \<Rightarrow> jsval list \<Rightarrow> jsval comp" where
  "sb_apply DisplayStatusBarItem = displayStatusBarItem"
| "sb_apply HideStatusBarItem = hideStatusBarItem"
| "sb_apply CreateStatusBarItem = createStatusBarItem"
| "sb_apply Visible = visible"

definition statusbar_module :: "(string \<times> sbfun) list" where
  "statusbar_module =
     [(''displayStatusBarItem'', DisplayStatusBarItem),
      (''hideStatusBarItem'', HideStatusBarItem),
      (''createStatusBarItem'', CreateStatusBarItem),
      (''visible'', Visible)]"

section \<open>Configuration and the host application\<close>

text \<open>
  What the extension reads and never writes. \<open>StatusBar\<close> is the namespace object the
  import \<^verbatim>\<open>import * as StatusBar from './statusbar'\<close> binds: the source binds it to
  \<open>statusbar_module\<close>, and the functions below take it from the environment, so that what
  is proved of them holds under that binding and under any other. The \<open>cfg\<close> fields are
  the values \<^verbatim>\<open>config.get\<close> returns, defaults applied (\<open>None\<close> for \<^verbatim>\<open>null\<close>).
  \<open>regexp_test r p\<close> is \<^verbatim>\<open>new RegExp(r).test(p)\<close>. \<open>pick\<close> is the user at the prompt of the
  add command, which is followed from its call to its end: the answer to the prompt with
  a given message, \<open>None\<close> when the prompt is dismissed. (The confirmation of a deletion
  batch is answered by an event of its own, below.) \<open>resolve\<close>, \<open>relativeTo\<close> and \<open>write_error\<close> stand for the file
  system under \<^verbatim>\<open>CsprojUtil\<close>: the descriptor found for a file by the ascent through
  its ancestor directories (or the failure), the \<^verbatim>\<open>Include\<close> path of a file in a
  descriptor, and the exception that writing a descriptor's file raises, if any.
\<close>

record env =
  StatusBar :: "(string \<times> sbfun) list"
  cfg_enabled :: bool
  cfg_silentDeletion :: bool
  cfg_includeRegex :: "string option"
  cfg_excludeRegex :: "string option"
  cfg_itemType :: ItemType
  regexp_test :: "string \<Rightarrow> string \<Rightarrow> bool"
  pick :: "string \<Rightarrow> string option"
  resolve :: "string \<Rightarrow> error + Csproj"
  relativeTo :: "Csproj \<Rightarrow> string \<Rightarrow> string"
  write_error :: "string \<Rightarrow> error option"

text \<open>
  A call \<^verbatim>\<open>StatusBar.f(...)\<close> reads the property \<^verbatim>\<open>f\<close> of the namespace object and
  calls it; calling \<^verbatim>\<open>undefined\<close> throws a TypeError.
\<close>

definition StatusBar_call :: "env \<Rightarrow> string \<Rightarrow> jsval list \<Rightarrow> jsval comp" where
  "StatusBar_call e f args =
     (case map_of (StatusBar e) f of
        None \<Rightarrow> throw (OtherError (''TypeError: StatusBar.'' @ f @ '' is not a function''))
      | Some g \<Rightarrow> sb_apply g args)"

text \<open>
  A message with items resolves to the item the user picked, or to \<^verbatim>\<open>undefined\<close>
  when the prompt is dismissed; a message without items resolves to \<^verbatim>\<open>undefined\<close>.
\<close>

definition answer :: "env \<Rightarrow> string \<Rightarrow> string list \<Rightarrow> string option" where
  "answer e msg its =
     (case pick e msg of None \<Rightarrow> None | Some c \<Rightarrow> if c \<in> set its then Some c else None)"

definition showInformationMessage :: "env \<Rightarrow> string \<Rightarrow> string list \<Rightarrow> string option comp" where
  "showInformationMessage e msg its =
     bind (emit (ShowInformationMessage msg its)) (\<lambda>_. ok (answer e msg its))"

definition showWarningMessage :: "env \<Rightarrow> string \<Rightarrow> string list \<Rightarrow> string option comp" where
  "showWarningMessage e msg its =
     bind (emit (ShowWarningMessage msg its)) (\<lambda>_. ok (answer e msg its))"

definition showErrorMessage :: "string \<Rightarrow> unit comp" where
  "showErrorMessage msg = emit (ShowErrorMessage msg)"

section \<open>The project-file utilities\<close>

text \<open>
  The module \<^verbatim>\<open>./csproj\<close> that \<^verbatim>\<open>extension.ts\<close> imports as \<^verbatim>\<open>CsprojUtil\<close> is not among
  the sources; the extension calls seven of its functions, and each is written here after
  sections 4.1 to 4.4 of the specification.
\<close>

text \<open>
  Modelled from the spec: \<^verbatim>\<open>forFile\<close>, missing with \<^verbatim>\<open>csproj.ts\<close>, is \<^verbatim>\<open>resolve(filePath)\<close>
  of section 4.1: the nearest governing descriptor, or the failure; the ascent through
  the ancestor directories is the \<open>resolve\<close> of the environment.
\<close>

definition forFile :: "env \<Rightarrow> string \<Rightarrow> Csproj comp" where
  "forFile e filePath =
     bind (emit (ForFile filePath))
       (\<lambda>_. case resolve e filePath of Inl err \<Rightarrow> throw err | Inr csproj \<Rightarrow> ok csproj)"

text \<open>
  Modelled from the spec: \<^verbatim>\<open>hasFile\<close>, missing with \<^verbatim>\<open>csproj.ts\<close>, is \<^verbatim>\<open>hasEntry\<close> of section
  4.3: true iff an entry exists whose relative path matches the relative form of the
  file path.
\<close>

definition hasFile :: "env \<Rightarrow> Csproj \<Rightarrow> string \<Rightarrow> state \<Rightarrow> bool" where
  "hasFile e csproj filePath s =
     (relativeTo e csproj filePath \<in> set (map fst (xml s (fsPath csproj))))"

text \<open>
  Modelled from the spec: \<^verbatim>\<open>addFile\<close>, missing with \<^verbatim>\<open>csproj.ts\<close>, is \<^verbatim>\<open>addEntry\<close> of section
  4.3: a no-op when an entry for the relative path exists, else a new entry with the
  given tag.
\<close>

definition addFile :: "env \<Rightarrow> Csproj \<Rightarrow> string \<Rightarrow> string \<Rightarrow> unit comp" where
  "addFile e csproj filePath itemType =
     bind (emit (AddFile (fsPath csproj) filePath itemType))
       (\<lambda>_ s. if hasFile e csproj filePath s then (Inr (), s)
              else (Inr (),
                    s\<lparr>xml := (xml s)(fsPath csproj :=
                         xml s (fsPath csproj) @ [(relativeTo e csproj filePath, itemType)])\<rparr>))"

text \<open>
  Modelled from the spec: \<^verbatim>\<open>removeFile\<close>, missing with \<^verbatim>\<open>csproj.ts\<close>, is \<^verbatim>\<open>removeEntry\<close> of
  section 4.3: the entry with the relative path is removed, and an absent entry is a
  tolerated no-op.
\<close>

definition removeFile :: "env \<Rightarrow> Csproj \<Rightarrow> string \<Rightarrow> unit comp" where
  "removeFile e csproj filePath =
     bind (emit (RemoveFile (fsPath csproj) filePath))
       (\<lambda>_ s. (Inr (),
               s\<lparr>xml := (xml s)(fsPath csproj :=
                    filter (\<lambda>it. fst it \<noteq> relativeTo e csproj filePath)
                      (xml s (fsPath csproj)))\<rparr>))"

text \<open>
  Modelled from the spec: \<^verbatim>\<open>persist\<close>, missing with \<^verbatim>\<open>csproj.ts\<close>, is \<^verbatim>\<open>write\<close> of section
  4.4: the tree in memory overwrites the descriptor's file, or the write fails and
  leaves tree and file as they are.
\<close>

definition persist :: "env \<Rightarrow> Csproj \<Rightarrow> unit comp" where
  "persist e csproj =
     bind (emit (Persist (fsPath csproj)))
       (\<lambda>_ s. case write_error e (fsPath csproj) of
                Some err \<Rightarrow> (Inl err, s)
              | None \<Rightarrow> (Inr (), s\<lparr>disk := (disk s)(fsPath csproj := xml s (fsPath csproj))\<rparr>))"

text \<open>
  Modelled from the spec: \<^verbatim>\<open>disableInvalidation\<close>, missing with \<^verbatim>\<open>csproj.ts\<close>, is
  \<^verbatim>\<open>setInvalidationSuppressed(true)\<close> of section 4.2, a process-wide toggle.
\<close>

definition disableInvalidation :: "unit comp" where
  "disableInvalidation =
     bind (emit DisableInvalidation) (\<lambda>_ s. (Inr (), s\<lparr>invalidationEnabled := False\<rparr>))"

text \<open>
  Modelled from the spec: \<^verbatim>\<open>enableInvalidation\<close>, missing with \<^verbatim>\<open>csproj.ts\<close>, is
  \<^verbatim>\<open>setInvalidationSuppressed(false)\<close> of section 4.2.
\<close>

definition enableInvalidation :: "unit comp" where
  "enableInvalidation =
     bind (emit EnableInvalidation) (\<lambda>_ s. (Inr (), s\<lparr>invalidationEnabled := True\<rparr>))"

section \<open>The extension\<close>

subsection \<open>The ignore list and the event filter\<close>

text \<open>
  \<^verbatim>\<open>
  function isDesiredFile(globalState: vscode.Memento, queryPath: string) {
      const config = workspace.getConfiguration("csproj")
      const ignorePaths = globalState.get<string[]>('csproj.ignorePaths') || []
      if (ignorePaths.indexOf(queryPath) > -1)
          return false
      const includeRegex = config.get('includeRegex', '.*')
      const excludeRegex = config.get('excludeRegex', null)
      if (includeRegex != null && !new RegExp(includeRegex).test(queryPath))
          return false
      if (excludeRegex != null && new RegExp(excludeRegex).test(queryPath))
          return false
      return true
  }
  \<close>
\<close>

definition isDesiredFile :: "env \<Rightarrow> string \<Rightarrow> state \<Rightarrow> bool" where
  "isDesiredFile e queryPath s =
     (let ignored = (case ignorePaths s of None \<Rightarrow> [] | Some l \<Rightarrow> l)
      in if queryPath \<in> set ignored then False
         else if (case cfg_includeRegex e of
                    None \<Rightarrow> False
                  | Some r \<Rightarrow> \<not> regexp_test e r queryPath) then False
         else if (case cfg_excludeRegex e of
                    None \<Rightarrow> False
                  | Some r \<Rightarrow> regexp_test e r queryPath) then False
         else True)"

definition ignoreEvent :: "env \<Rightarrow> string \<Rightarrow> bool comp" where
  "ignoreEvent e uri s =
     (if \<not> isDesiredFile e uri s then ok True s
      else bind (StatusBar_call e ''isVisible'' [])
             (\<lambda>v. if truthy v then ok True else ok False) s)"

definition clearIgnoredPathsCommand :: "unit comp" where
  "clearIgnoredPathsCommand s = (Inr (), s\<lparr>ignorePaths := Some []\<rparr>)"

definition updateIgnoredPaths :: "string \<Rightarrow> unit comp" where
  "updateIgnoredPaths addPath s =
     (let list = (case ignorePaths s of None \<Rightarrow> [] | Some l \<Rightarrow> l)
      in (Inr (), s\<lparr>ignorePaths := Some (list @ [addPath])\<rparr>))"

subsection \<open>The add command\<close>

text \<open>
  The three actions of \<^verbatim>\<open>pickActions\<close>, on the fields of \<^verbatim>\<open>ActionArgs\<close> (the global
  state is part of the state).
\<close>

definition action_YES :: "env \<Rightarrow> string \<Rightarrow> string \<Rightarrow> Csproj \<Rightarrow> unit comp" where
  "action_YES e filePath fileName csproj =
     bind (addFile e csproj filePath (getTypeForFile fileName (cfg_itemType e))) (\<lambda>_.
     bind (persist e csproj) (\<lambda>_.
     bind (StatusBar_call e ''displayItem'' [Str (name csproj), Bool True]) (\<lambda>_.
     bind (showInformationMessage e (''Added '' @ fileName @ '' to '' @ name csproj) [])
       (\<lambda>_. ok ()))))"

definition action_NO :: "env \<Rightarrow> string \<Rightarrow> string \<Rightarrow> Csproj \<Rightarrow> unit comp" where
  "action_NO e filePath fileName csproj =
     bind (StatusBar_call e ''displayItem'' [Str (name csproj), Bool False]) (\<lambda>_. ok ())"

definition action_NEVER :: "env \<Rightarrow> string \<Rightarrow> string \<Rightarrow> Csproj \<Rightarrow> unit comp" where
  "action_NEVER e filePath fileName csproj =
     bind (updateIgnoredPaths filePath) (\<lambda>_.
     bind (StatusBar_call e ''hideItem'' []) (\<lambda>_.
     bind (showInformationMessage e
             (''Added '' @ fileName @ '' to ignore list, to clear list, run the '' @
              [CHR 0x22] @ ''csproj: Clear ignored paths'' @ [CHR 0x22]) [])
       (\<lambda>_. ok ())))"

definition pickActions ::
  "string \<Rightarrow> (env \<Rightarrow> string \<Rightarrow> string \<Rightarrow> Csproj \<Rightarrow> unit comp) option" where
  "pickActions key =
     (if key = YES then Some action_YES
      else if key = NO then Some action_NO
      else if key = NEVER then Some action_NEVER
      else None)"

text \<open>
  \<^verbatim>\<open>pickActions[pickResult] || pickActions[NO]\<close>, where \<^verbatim>\<open>pickResult\<close> is a string or
  \<^verbatim>\<open>undefined\<close>.
\<close>

definition pickedAction ::
  "string option \<Rightarrow> env \<Rightarrow> string \<Rightarrow> string \<Rightarrow> Csproj \<Rightarrow> unit comp" where
  "pickedAction pickResult =
     (case (case pickResult of None \<Rightarrow> None | Some key \<Rightarrow> pickActions key) of
        Some act \<Rightarrow> act
      | None \<Rightarrow> action_NO)"

text \<open>The body of the \<^verbatim>\<open>try\<close> block of \<^verbatim>\<open>csprojCommand\<close> (lines 103 to 125).\<close>

definition csprojCommand_try :: "env \<Rightarrow> string \<Rightarrow> string \<Rightarrow> bool \<Rightarrow> unit comp" where
  "csprojCommand_try e filePath fileName prompt =
     bind (forFile e filePath) (\<lambda>csproj s.
       if hasFile e csproj filePath s then
         bind (StatusBar_call e ''displayItem'' [Str (name csproj), Bool True]) (\<lambda>_.
           if \<not> prompt then
             bind (showWarningMessage e (fileName @ '' is already in '' @ name csproj) [])
               (\<lambda>_. ok ())
           else ok ()) s
       else
         bind (if prompt then
                 showInformationMessage e
                   (fileName @ '' is not in '' @ name csproj @ '', would you like to add it?'')
                   [YES, NEVER]
               else ok (Some YES))
           (\<lambda>pickResult. pickedAction pickResult e filePath fileName csproj) s)"

text \<open>
  \<^verbatim>\<open>csprojCommand\<close>, lines 88 to 135, called with a URI (the default of the parameter,
  the active editor's document, is left out): nothing for an empty path; the log line;
  nothing more for a project file or a path with no separator; else the \<^verbatim>\<open>try\<close> block
  and its \<^verbatim>\<open>catch\<close>.
\<close>

definition csprojCommand :: "env \<Rightarrow> string \<Rightarrow> bool \<Rightarrow> unit comp" where
  "csprojCommand e filePath prompt =
     (if filePath = [] then ok ()
      else
        (let fileName = basename filePath
         in bind (emit (ConsoleLog (''extension.csproj#trigger('' @ fileName @ '')''))) (\<lambda>_.
              if endsWith filePath ''.csproj'' \<or> \<not> hasSeparator filePath then ok ()
              else
                catch (csprojCommand_try e filePath fileName prompt)
                  (\<lambda>err.
                     if \<not> isNoCsprojError err then
                       bind (showErrorMessage (toString err)) (\<lambda>_. emit (ConsoleTrace err))
                     else
                       emit (ConsoleLog (''extension.csproj#trigger('' @ fileName @
                                         ''): no csproj found''))))))"

subsection \<open>The remove command\<close>

text \<open>
  \<^verbatim>\<open>csprojRemoveCommand\<close>, lines 248 to 279. With no descriptor passed it resolves one,
  and a failure ends the command; then it removes the entry, and persists only when no
  descriptor was passed (\<^verbatim>\<open>// Do not persist if a csproj was passed to the command.
  Assume that the caller will persist after the command executes.\<close>).
\<close>

definition csprojRemoveCommand :: "env \<Rightarrow> string \<Rightarrow> Csproj option \<Rightarrow> unit comp" where
  "csprojRemoveCommand e filePath csprojArg =
     (let csprojProvided = (csprojArg \<noteq> None)
      in bind (case csprojArg of
                 Some csproj \<Rightarrow> ok (Some csproj)
               | None \<Rightarrow>
                   catch (bind (forFile e filePath) (\<lambda>csproj. ok (Some csproj)))
                     (\<lambda>err.
                        bind (if isNoCsprojError err then
                                showErrorMessage
                                  (''Unable to locate csproj for file: '' @ basename filePath)
                              else emit (ConsoleTrace err))
                          (\<lambda>_. ok None)))
           (\<lambda>found. case found of
                None \<Rightarrow> ok ()
              | Some csproj \<Rightarrow>
                  catch (bind (removeFile e csproj filePath) (\<lambda>_.
                           if \<not> csprojProvided then persist e csproj else ok ()))
                    (\<lambda>err. bind (showErrorMessage (toString err))
                             (\<lambda>_. emit (ConsoleTrace err)))))"

text \<open>\<^verbatim>\<open>commands.executeCommand\<close> runs the handler that \<^verbatim>\<open>activate\<close> registered.\<close>

definition executeCommand_add :: "env \<Rightarrow> string \<Rightarrow> unit comp" where
  "executeCommand_add e uri =
     bind (emit (ExecuteCommand ''extension.csproj.add'' uri))
       (\<lambda>_. csprojCommand e uri True)"

definition executeCommand_remove :: "env \<Rightarrow> string \<Rightarrow> Csproj \<Rightarrow> unit comp" where
  "executeCommand_remove e filePath csproj =
     bind (emit (ExecuteCommand ''extension.csproj.remove'' filePath))
       (\<lambda>_. csprojRemoveCommand e filePath (Some csproj))"

subsection \<open>Batched deletions\<close>

definition singleDeleteMessage :: "Csproj \<Rightarrow> string \<Rightarrow> string" where
  "singleDeleteMessage csproj filePath =
     basename filePath @ '' was deleted. Remove it from '' @ name csproj @ ''?''"

definition multiDeleteMessage :: "string list \<Rightarrow> string" where
  "multiDeleteMessage filePaths =
     show_nat (length filePaths) @ '' files were deleted. Remove them from csproj?''"

text \<open>The loop of lines 193 to 195: one remove command for each pair, in order.\<close>

fun removeEach :: "env \<Rightarrow> CsprojAndFile list \<Rightarrow> unit comp" where
  "removeEach e [] = ok ()"
| "removeEach e (r # rest) =
     bind (executeCommand_remove e (snd r) (fst r)) (\<lambda>_. removeEach e rest)"

text \<open>
  The function handed to \<^verbatim>\<open>debounce\<close> (lines 180 to 199), on its two arguments, in the
  two stretches it runs in. The first runs from the call to the \<^verbatim>\<open>await\<close> of line 190:
  \<^verbatim>\<open>onCall()\<close>, \<^verbatim>\<open>disableInvalidation()\<close>, the message
  (\<^verbatim>\<open>removals[0].csproj\<close> on an empty array reads a property of \<^verbatim>\<open>undefined\<close>), and
  then, with silent deletion on, \<^verbatim>\<open>||\<close> takes its left operand and the function goes on
  to its end; with silent deletion off the confirmation is shown and the function is
  suspended, its array kept for the continuation. The second stretch, lines 192 to 198,
  runs when the confirmation resolves: the loop when the answer is Yes, and
  \<^verbatim>\<open>enableInvalidation()\<close>. A remove command that is handed its descriptor completes
  without waiting for anything, so the \<^verbatim>\<open>await\<close> of line 194 resumes before any other
  event is handled and the loop is one stretch.
\<close>

definition removeFromCsproj_rest :: "env \<Rightarrow> CsprojAndFile list \<Rightarrow> bool \<Rightarrow> unit comp" where
  "removeFromCsproj_rest e removals doDelete =
     bind (if doDelete then removeEach e removals else ok ()) (\<lambda>_.
     enableInvalidation)"

definition removeFromCsproj :: "env \<Rightarrow> CsprojAndFile list \<Rightarrow> unit comp \<Rightarrow> unit comp" where
  "removeFromCsproj e removals onCall =
     bind onCall (\<lambda>_.
     bind disableInvalidation (\<lambda>_.
     bind (if length removals > 1 then ok (multiDeleteMessage (map snd removals))
           else (case removals of
                   [] \<Rightarrow> throw (OtherError
                           ''TypeError: Cannot read properties of undefined (reading csproj)'')
                 | r # rest \<Rightarrow> ok (singleDeleteMessage (fst r) (snd r)))) (\<lambda>message.
     if cfg_silentDeletion e then removeFromCsproj_rest e removals True
     else bind (emit (ShowWarningMessage message [YES]))
            (\<lambda>_ s. (Inr (), s\<lparr>awaiting := awaiting s @ [removals]\<rparr>)))))"

text \<open>
  The confirmation of the suspended flush number \<open>i\<close> resolves to \<open>picked\<close> (the item
  picked, or \<open>None\<close> for \<^verbatim>\<open>undefined\<close> when the prompt is dismissed), and the flush runs
  its second stretch with \<^verbatim>\<open>doDelete = (picked === YES)\<close>. Confirmations that are open
  together resolve in any order.
\<close>

definition confirmationResolved :: "env \<Rightarrow> nat \<Rightarrow> string option \<Rightarrow> unit comp" where
  "confirmationResolved e i picked s =
     (if i < length (awaiting s)
      then removeFromCsproj_rest e (awaiting s ! i) (picked = Some YES)
             (s\<lparr>awaiting := take i (awaiting s) @ drop (Suc i) (awaiting s)\<rparr>)
      else (Inr (), s))"

text \<open>
  \<^verbatim>\<open>lodash.debounce(f, 2000)\<close> with its default options (a library function): a call
  stores its arguments and restarts the timer, and \<^verbatim>\<open>f\<close> runs on the stored arguments
  once, when the timer runs out. Every call of \<^verbatim>\<open>handleFileDeletion\<close> passes the array
  that \<^verbatim>\<open>_csprojRemovals\<close> names, and only the \<^verbatim>\<open>onCall\<close> of a running flush gives the
  variable a new array, so the stored array is the variable's value when the timer runs
  out, and the state keeps the deadline only.
  The value a call returns (the promise of the flush before, if any) is awaited by the
  caller and not used.
\<close>

definition debouncedRemoveFromCsproj :: "unit comp" where
  "debouncedRemoveFromCsproj s = (Inr (), s\<lparr>timer := Some (clock s + debounceDeleteTime)\<rparr>)"

definition timerExpired :: "env \<Rightarrow> unit comp" where
  "timerExpired e s =
     bind (emit DebounceInvoke) (\<lambda>_.
       removeFromCsproj e (csprojRemovals s)
         (\<lambda>s'. (Inr (), s'\<lparr>csprojRemovals := []\<rparr>)))
       (s\<lparr>timer := None\<rparr>)"

text \<open>
  \<^verbatim>\<open>
  async function handleFileDeletion({fsPath}: vscode.Uri) {
      try {
          const csproj = await CsprojUtil.forFile(fsPath)
          if (!CsprojUtil.hasFile(csproj, fsPath))
              return
          _csprojRemovals.push({ csproj, filePath: fsPath })
          await debouncedRemoveFromCsproj(
              _csprojRemovals,
              () => { _csprojRemovals = [] }
          )
      } catch (err) {
          console.trace(err)
      }
  }
  \<close>
\<close>

definition handleFileDeletion :: "env \<Rightarrow> string \<Rightarrow> unit comp" where
  "handleFileDeletion e filePath =
     catch
       (bind (forFile e filePath) (\<lambda>csproj s.
          if \<not> hasFile e csproj filePath s then ok () s
          else debouncedRemoveFromCsproj
                 (s\<lparr>csprojRemovals := csprojRemovals s @ [(csproj, filePath)]\<rparr>)))
       (\<lambda>err. emit (ConsoleTrace err))"

text \<open>
  The logical clock. Time moves to \<open>t\<close>, and a timer whose deadline is reached runs its
  function at the deadline, up to the point where the function is suspended or ends; an
  exception of that function is an unhandled rejection and the state stays as it left
  it. A deletion notification at time \<open>t\<close> is handled at \<open>t\<close>, the resolution of its
  descriptor taken at once.
\<close>

definition advance :: "env \<Rightarrow> nat \<Rightarrow> state \<Rightarrow> state" where
  "advance e t s =
     (case timer s of
        None \<Rightarrow> s\<lparr>clock := t\<rparr>
      | Some d \<Rightarrow>
          if d \<le> t then (snd (timerExpired e (s\<lparr>clock := d\<rparr>)))\<lparr>clock := t\<rparr>
          else s\<lparr>clock := t\<rparr>)"

definition onDidDelete :: "env \<Rightarrow> nat \<times> string \<Rightarrow> state \<Rightarrow> state" where
  "onDidDelete e n s = snd (handleFileDeletion e (snd n) (advance e (fst n) s))"

fun deletions :: "env \<Rightarrow> (nat \<times> string) list \<Rightarrow> state \<Rightarrow> state" where
  "deletions e [] s = s"
| "deletions e (n # ns) s = deletions e ns (onDidDelete e n s)"

subsection \<open>Activation and the editor events\<close>

text \<open>
  \<^verbatim>\<open>activate\<close>, lines 19 to 66: the arguments of \<^verbatim>\<open>context.subscriptions.push\<close> are
  evaluated in order, each registering a command or a listener, the last one being
  \<^verbatim>\<open>StatusBar.createItem()\<close>; then the push.
\<close>

definition activate :: "env \<Rightarrow> unit comp" where
  "activate e =
     (if \<not> cfg_enabled e then ok ()
      else
        bind (emit (ConsoleLog ''extension.csproj#activate'')) (\<lambda>_.
        bind (emit (Register ''extension.csproj.add'')) (\<lambda>_.
        bind (emit (Register ''extension.csproj.remove'')) (\<lambda>_.
        bind (emit (Register ''extension.csproj.clearIgnoredPaths'')) (\<lambda>_.
        bind (emit (Register ''onDidSaveTextDocument'')) (\<lambda>_.
        bind (emit (Register ''onDidChangeActiveTextEditor'')) (\<lambda>_.
        bind (emit (Register ''csprojWatcher.onDidChange'')) (\<lambda>_.
        bind (emit (Register ''deleteFileWatcher.onDidDelete'')) (\<lambda>_.
        bind (StatusBar_call e ''createItem'' []) (\<lambda>item.
        emit (Register ''context.subscriptions'')))))))))))"

text \<open>
  The listeners of lines 37 to 53; the editor of the second is \<open>None\<close> when there is no
  active editor.
\<close>

definition onDidSaveTextDocument :: "env \<Rightarrow> string \<Rightarrow> unit comp" where
  "onDidSaveTextDocument e uri =
     bind (ignoreEvent e uri) (\<lambda>ignored.
       if ignored then ok () else executeCommand_add e uri)"

definition onDidChangeActiveTextEditor :: "env \<Rightarrow> string option \<Rightarrow> unit comp" where
  "onDidChangeActiveTextEditor e editor =
     (case editor of
        None \<Rightarrow> ok ()
      | Some uri \<Rightarrow>
          bind (StatusBar_call e ''hideItem'' []) (\<lambda>_.
          bind (ignoreEvent e uri) (\<lambda>ignored.
            if ignored then ok () else executeCommand_add e uri)))"

text \<open>The names of the status bar functions that \<^verbatim>\<open>extension.ts\<close> calls.\<close>

definition statusbar_calls :: "string list" where
  "statusbar_calls = [''hideItem'', ''displayItem'', ''createItem'', ''isVisible'']"

section \<open>Reading a trace\<close>

fun isPrompt :: "event \<Rightarrow> bool" where
  "isPrompt (ShowWarningMessage msg its) = (its \<noteq> [])"
| "isPrompt (ShowInformationMessage msg its) = (its \<noteq> [])"
| "isPrompt ev = False"

fun isMessage :: "event \<Rightarrow> bool" where
  "isMessage (ShowErrorMessage msg) = True"
| "isMessage (ShowWarningMessage msg its) = True"
| "isMessage (ShowInformationMessage msg its) = True"
| "isMessage ev = False"

text \<open>The events a run added to the trace of the state it started from.\<close>

definition since :: "state \<Rightarrow> state \<Rightarrow> event list" where
  "since s s' = drop (length (trace s)) (trace s')"

fun isMutation :: "event \<Rightarrow> bool" where
  "isMutation (AddFile c p t) = True"
| "isMutation (RemoveFile c p) = True"
| "isMutation (Persist c) = True"
| "isMutation ev = False"

fun isToggle :: "event \<Rightarrow> bool" where
  "isToggle DisableInvalidation = True"
| "isToggle EnableInvalidation = True"
| "isToggle ev = False"

fun isFlush :: "event \<Rightarrow> bool" where
  "isFlush DebounceInvoke = True"
| "isFlush ev = False"

text \<open>
  The bracket of section 4.2 of the specification, read on a trace: every mutation and
  every write happens while invalidation is suppressed. The flag is \<open>True\<close> while a
  \<open>DisableInvalidation\<close> is in force.
\<close>

fun bracketed :: "bool \<Rightarrow> event list \<Rightarrow> bool" where
  "bracketed quiet [] = True"
| "bracketed quiet (DisableInvalidation # evs) = bracketed True evs"
| "bracketed quiet (EnableInvalidation # evs) = bracketed False evs"
| "bracketed quiet (ev # evs) = ((isMutation ev \<longrightarrow> quiet) \<and> bracketed quiet evs)"

text \<open>
  The trees after the remove commands of a batch: each pair's entry filtered out of its
  descriptor, in order; and the events of those commands.
\<close>

fun removed :: "env \<Rightarrow> CsprojAndFile list \<Rightarrow> (string \<Rightarrow> items) \<Rightarrow> (string \<Rightarrow> items)" where
  "removed e [] x = x"
| "removed e (r # rest) x =
     removed e rest
       (x(fsPath (fst r) :=
            filter (\<lambda>it. fst it \<noteq> relativeTo e (fst r) (snd r)) (x (fsPath (fst r)))))"

fun removalEvents :: "CsprojAndFile list \<Rightarrow> event list" where
  "removalEvents [] = []"
| "removalEvents (r # rest) =
     ExecuteCommand ''extension.csproj.remove'' (snd r) #
     RemoveFile (fsPath (fst r)) (snd r) # removalEvents rest"

text \<open>
  Deletion notifications with their arrival times: each arrives no earlier than the
  one before it and before the quiet window of that one has run out. A notification
  counts for the batch when its file resolves to a descriptor that lists it.
\<close>

fun withinWindow :: "nat \<Rightarrow> (nat \<times> string) list \<Rightarrow> bool" where
  "withinWindow t [] = True"
| "withinWindow t (n # ns) =
     (t \<le> fst n \<and> fst n < t + debounceDeleteTime \<and> withinWindow (fst n) ns)"

definition listed :: "env \<Rightarrow> state \<Rightarrow> string \<Rightarrow> bool" where
  "listed e s filePath =
     (case resolve e filePath of Inl err \<Rightarrow> False | Inr csproj \<Rightarrow> hasFile e csproj filePath s)"

definition pending :: "env \<Rightarrow> string \<Rightarrow> CsprojAndFile" where
  "pending e filePath =
     (case resolve e filePath of
        Inl err \<Rightarrow> (\<lparr>fsPath = [], name = []\<rparr>, filePath)
      | Inr csproj \<Rightarrow> (csproj, filePath))"

text \<open>The message of the confirmation a flush shows for a batch (lines 185 to 187).\<close>

definition deleteMessage :: "CsprojAndFile list \<Rightarrow> string" where
  "deleteMessage removals =
     (if length removals > 1 then multiDeleteMessage (map snd removals)
      else singleDeleteMessage (fst (hd removals)) (snd (hd removals)))"

text \<open>The path passes the two guards of the add command (lines 94 and 99).\<close>

definition eligible :: "string \<Rightarrow> bool" where
  "eligible p = (p \<noteq> [] \<and> \<not> endsWith p ''.csproj'' \<and> hasSeparator p)"

text \<open>
  The confirmation as the specification words it, on the pending set: the pairs of the
  batch without repetition; a combined message with their number when there is more
  than one, the message naming the file and its descriptor when there is exactly one.
\<close>

definition confirmationMessage_spec :: "CsprojAndFile list \<Rightarrow> string" where
  "confirmationMessage_spec removals =
     (let pendingSet = remdups removals
      in if length pendingSet > 1
         then show_nat (length pendingSet) @ '' files were deleted. Remove them from csproj?''
         else singleDeleteMessage (fst (hd pendingSet)) (snd (hd pendingSet)))"

section \<open>An example workspace\<close>

text \<open>
  A directory \<^verbatim>\<open>/D\<close> with the descriptor \<^verbatim>\<open>App.csproj\<close> listing \<^verbatim>\<open>a.ts\<close> and \<^verbatim>\<open>b.png\<close>;
  files outside \<^verbatim>\<open>/D\<close> have no descriptor. The user answers every prompt with Yes in
  \<open>example_env\<close> and dismisses every prompt in \<open>dismissing_env\<close>.
\<close>

definition App :: Csproj where
  "App = \<lparr>fsPath = ''/D/App.csproj'', name = ''App.csproj''\<rparr>"

definition example_items :: items where
  "example_items = [(''a.ts'', ''TypeScriptCompile''), (''b.png'', ''Content'')]"

definition example_env :: env where
  "example_env =
     \<lparr>StatusBar = statusbar_module, cfg_enabled = True, cfg_silentDeletion = False,
      cfg_includeRegex = Some ''.*'', cfg_excludeRegex = None,
      cfg_itemType = defaultItemType,
      regexp_test = (\<lambda>r p. True),
      pick = (\<lambda>msg. Some YES),
      resolve = (\<lambda>p. if take 3 p = ''/D/'' then Inr App
                     else Inl (NoCsprojError ''NoCsprojError'')),
      relativeTo = (\<lambda>c p. drop 3 p),
      write_error = (\<lambda>p. None)\<rparr>"

definition dismissing_env :: env where
  "dismissing_env = example_env\<lparr>pick := (\<lambda>msg. None)\<rparr>"

definition example_state :: state where
  "example_state =
     \<lparr>ignorePaths = None, csprojRemovals = [], timer = None, clock = 0,
      invalidationEnabled = True,
      xml = (\<lambda>p. if p = ''/D/App.csproj'' then example_items else []),
      disk = (\<lambda>p. if p = ''/D/App.csproj'' then example_items else []),
      awaiting = [],
      statusBarItem = None, statusBarItemVisible = False, trace = []\<rparr>"

text \<open>
  Variations: batches of one, two, three and twelve waiting for the timer, silent deletion
  switched on, a descriptor that cannot be parsed, a descriptor that cannot be written,
  and a file on the ignore list.
\<close>

definition collecting_state :: state where
  "collecting_state =
     example_state\<lparr>csprojRemovals := [(App, ''/D/a.ts'')], timer := Some 2000\<rparr>"

definition collecting_two :: state where
  "collecting_two =
     example_state\<lparr>csprojRemovals := [(App, ''/D/a.ts''), (App, ''/D/b.png'')],
                   timer := Some 2000\<rparr>"

definition collecting_three :: state where
  "collecting_three =
     example_state\<lparr>csprojRemovals := [(App, ''/D/a.ts''), (App, ''/D/b.png''), (App, ''/D/a.ts'')],
                   timer := Some 2000\<rparr>"

definition collecting_twelve :: state where
  "collecting_twelve =
     example_state\<lparr>csprojRemovals := replicate 12 (App, ''/D/a.ts''), timer := Some 2000\<rparr>"

definition silent_env :: env where
  "silent_env = example_env\<lparr>cfg_silentDeletion := True\<rparr>"

definition broken_env :: env where
  "broken_env = example_env\<lparr>resolve := (\<lambda>p. Inl (OtherError ''Error: cannot parse''))\<rparr>"

definition readonly_env :: env where
  "readonly_env = example_env\<lparr>write_error := (\<lambda>p. Some (OtherError ''Error: EACCES''))\<rparr>"

definition ignoring_state :: state where
  "ignoring_state = example_state\<lparr>ignorePaths := Some [''/D/c.ts'']\<rparr>"

section \<open>Properties\<close>

lemmas comp_defs = ok_def throw_def bind_def catch_def emit_def

subsection \<open>Item-type resolution\<close>

text \<open>
  C3, as stated, at the rule \<^verbatim>\<open>{'.ts': '', '*': 'Content'}\<close> and the file \<^verbatim>\<open>a.ts\<close>: the
  map has the extension as a key, its tag is the empty string, and the code takes the
  wildcard's tag, where the resolution as stated gives the tag of the extension.
\<close>

theorem getTypeForFile_empty_tag_counterexample:
  "getTypeForFile ''a.ts'' (ByExtension [(''.ts'', ''''), (''*'', ''Content'')])
     \<noteq> resolveItemType_spec ''a.ts'' (ByExtension [(''.ts'', ''''), (''*'', ''Content'')])"
  by (simp add: extname_def basename_def js_or_def js_or_str_def)

text \<open>
  C3, amended: a uniform tag is the result; under an extension map the result is the tag
  of the file's extension when the map has one that is not empty, else the tag of the
  wildcard key when the map has one that is not empty, else \<^verbatim>\<open>Content\<close>. Under the rule
  \<^verbatim>\<open>{'*': 'Content', '.ts': 'TypeScriptCompile'}\<close>, \<^verbatim>\<open>a.ts\<close> resolves to
  \<^verbatim>\<open>TypeScriptCompile\<close> and \<^verbatim>\<open>a.png\<close> to \<^verbatim>\<open>Content\<close>.
\<close>

theorem getTypeForFile_resolution:
  "getTypeForFile fileName (Uniform tag) = tag \<and>
   getTypeForFile fileName (ByExtension m) =
     (case map_of m (extname fileName) of
        Some t \<Rightarrow> if t \<noteq> [] then t
                  else (case map_of m ''*'' of
                          Some w \<Rightarrow> if w \<noteq> [] then w else ''Content''
                        | None \<Rightarrow> ''Content'')
      | None \<Rightarrow> (case map_of m ''*'' of
                   Some w \<Rightarrow> if w \<noteq> [] then w else ''Content''
                 | None \<Rightarrow> ''Content'')) \<and>
   getTypeForFile ''a.ts'' (ByExtension [(''*'', ''Content''), (''.ts'', ''TypeScriptCompile'')])
     = ''TypeScriptCompile'' \<and>
   getTypeForFile ''a.png'' (ByExtension [(''*'', ''Content''), (''.ts'', ''TypeScriptCompile'')])
     = ''Content''"
  by (simp add: extname_def basename_def js_or_def js_or_str_def split: option.splits)

theorem getTypeForFile_resolution_witness:
  "getTypeForFile ''a.ts'' (Uniform ''Compile'') = ''Compile'' \<and>
   getTypeForFile ''a.ts'' (ByExtension [(''.ts'', ''''), (''*'', ''Content'')]) = ''Content'' \<and>
   getTypeForFile ''a.ts'' (ByExtension [(''.ts'', ''''), (''*'', '''')]) = ''Content'' \<and>
   getTypeForFile ''a.ts'' defaultItemType = ''TypeScriptCompile''"
  using getTypeForFile_resolution [of "''a.ts''" "''Compile''" "[(''.ts'', ''''), (''*'', ''Content'')]"]
    getTypeForFile_resolution [of "''a.ts''" "''Compile''" "[(''.ts'', ''''), (''*'', '''')]"]
  by (simp del: getTypeForFile.simps add: extname_def basename_def defaultItemType_def)

subsection \<open>Paths the add command skips\<close>

text \<open>
  C9: for a path that ends in \<^verbatim>\<open>.csproj\<close> or holds no separator, the add command returns
  with the state as it was but for its one line on the console (none for an empty
  path): no descriptor is resolved, nothing is mutated, prompted or persisted.
\<close>

theorem csprojCommand_skips_descriptors_and_bare_names:
  "endsWith p ''.csproj'' \<or> \<not> hasSeparator p \<Longrightarrow>
   csprojCommand e p prompt s =
     (Inr (), if p = [] then s
              else s\<lparr>trace := trace s @
                     [ConsoleLog (''extension.csproj#trigger('' @ basename p @ '')'')]\<rparr>)"
  by (auto simp: csprojCommand_def comp_defs Let_def)

theorem csprojCommand_skips_descriptors_and_bare_names_witness:
  "endsWith ''/D/App.csproj'' ''.csproj'' \<and>
   csprojCommand example_env ''/D/App.csproj'' True example_state =
     (Inr (), example_state\<lparr>trace := [ConsoleLog ''extension.csproj#trigger(App.csproj)'']\<rparr>) \<and>
   \<not> hasSeparator ''c.ts'' \<and>
   csprojCommand example_env ''c.ts'' True example_state =
     (Inr (), example_state\<lparr>trace := [ConsoleLog ''extension.csproj#trigger(c.ts)'']\<rparr>)"
  using csprojCommand_skips_descriptors_and_bare_names
          [of "''/D/App.csproj''" example_env True example_state]
        csprojCommand_skips_descriptors_and_bare_names
          [of "''c.ts''" example_env True example_state]
  by (simp add: endsWith_def hasSeparator_def basename_def example_state_def)

subsection \<open>The status bar functions the extension calls\<close>

text \<open>
  C10 fails on the code: none of the four names the extension calls on the status bar
  module (\<^verbatim>\<open>hideItem\<close>, \<^verbatim>\<open>displayItem\<close>, \<^verbatim>\<open>createItem\<close>, \<^verbatim>\<open>isVisible\<close>) is a name the
  module exports, and activation with the extension enabled ends in the TypeError of
  calling \<^verbatim>\<open>StatusBar.createItem\<close>, before anything is pushed to the subscriptions.
\<close>

theorem statusbar_calls_are_not_exported:
  "map (map_of statusbar_module) statusbar_calls = [None, None, None, None] \<and>
   fst (activate example_env example_state) =
     Inl (OtherError ''TypeError: StatusBar.createItem is not a function'') \<and>
   Register ''context.subscriptions'' \<notin> set (trace (snd (activate example_env example_state)))"
  by (simp add: statusbar_module_def statusbar_calls_def activate_def example_env_def
      example_state_def StatusBar_call_def comp_defs)

subsection \<open>Building blocks\<close>

text \<open>
  A call into the status bar module, whatever the name resolves to, touches the two
  variables of that module and nothing else.
\<close>

lemma StatusBar_call_frame:
  "\<exists>i v. snd (StatusBar_call e f args s) = s\<lparr>statusBarItem := i, statusBarItemVisible := v\<rparr>"
proof (cases "map_of (StatusBar e) f")
  case None
  have "s = s\<lparr>statusBarItem := statusBarItem s, statusBarItemVisible := statusBarItemVisible s\<rparr>"
    by simp
  with None show ?thesis
    by (metis StatusBar_call_def option.simps(4) snd_conv throw_def)
next
  case (Some g)
  have "\<exists>i v. snd (sb_apply g args s) = s\<lparr>statusBarItem := i, statusBarItemVisible := v\<rparr>"
  proof (cases g)
    case DisplayStatusBarItem
    then show ?thesis
      apply (cases "statusBarItem s")
       apply (simp_all add: displayStatusBarItem_def Let_def)
       apply (rule exI [of _ None], rule exI [of _ "statusBarItemVisible s"], simp)
      apply blast
      done
  next
    case HideStatusBarItem
    then show ?thesis
      apply (cases "statusBarItem s")
       apply (simp_all add: hideStatusBarItem_def)
       apply (rule exI [of _ None], rule exI [of _ "statusBarItemVisible s"], simp)
      apply blast
      done
  next
    case CreateStatusBarItem
    then show ?thesis
      apply (cases "statusBarItem s")
       apply (simp_all add: createStatusBarItem_def Let_def)
       apply (rule exI [of _ "Some \<lparr>item_text = [], item_tooltip = [],
                  item_command = ''extension.csproj.add'', item_shown = False\<rparr>"],
              rule exI [of _ "statusBarItemVisible s"], simp)
      apply (rule exI [of _ "Some \<lparr>item_text = [], item_tooltip = [],
                  item_command = ''extension.csproj.add'', item_shown = False\<rparr>"],
              rule exI [of _ False], simp)
      done
  next
    case Visible
    then show ?thesis
      apply (simp add: visible_def)
      apply (rule exI [of _ "statusBarItem s"], rule exI [of _ "statusBarItemVisible s"], simp)
      done
  qed
  with Some show ?thesis by (simp add: StatusBar_call_def)
qed

lemma StatusBar_call_keeps:
  "trace (snd (StatusBar_call e f args s)) = trace s"
  "xml (snd (StatusBar_call e f args s)) = xml s"
  "disk (snd (StatusBar_call e f args s)) = disk s"
  "ignorePaths (snd (StatusBar_call e f args s)) = ignorePaths s"
  "invalidationEnabled (snd (StatusBar_call e f args s)) = invalidationEnabled s"
  "csprojRemovals (snd (StatusBar_call e f args s)) = csprojRemovals s"
  "timer (snd (StatusBar_call e f args s)) = timer s"
  "clock (snd (StatusBar_call e f args s)) = clock s"
  using StatusBar_call_frame [of e f args s] by auto

text \<open>
  A remove command that is handed its descriptor removes the entry from the tree and
  does not write the file; the loop of a flush is a sequence of such commands.
\<close>

lemma executeCommand_remove_result:
  "executeCommand_remove e f c s =
     (Inr (), s\<lparr>xml := (xml s)(fsPath c :=
                     filter (\<lambda>it. fst it \<noteq> relativeTo e c f) (xml s (fsPath c))),
               trace := trace s @ [ExecuteCommand ''extension.csproj.remove'' f,
                                   RemoveFile (fsPath c) f]\<rparr>)"
  by (simp add: executeCommand_remove_def csprojRemoveCommand_def removeFile_def comp_defs)

lemma removeEach_result:
  "removeEach e rs s =
     (Inr (), s\<lparr>xml := removed e rs (xml s), trace := trace s @ removalEvents rs\<rparr>)"
proof (induction rs arbitrary: s)
  case Nil
  show ?case by (simp add: ok_def)
next
  case (Cons r rs)
  show ?case
    by (simp add: bind_def executeCommand_remove_result Cons.IH)
qed

text \<open>
  The two stretches of a flush, in full. The first, for a batch that is not empty: with
  silent deletion on it runs to the end of the flush; with silent deletion off it ends
  suspended at the confirmation, invalidation disabled. The second, when the
  confirmation resolves: the removals if the answer is Yes, and invalidation enabled.
\<close>

lemma removeFromCsproj_rest_result:
  "removeFromCsproj_rest e rs doDelete s =
     (Inr (),
      s\<lparr>invalidationEnabled := True,
        xml := (if doDelete then removed e rs (xml s) else xml s),
        trace := trace s @ (if doDelete then removalEvents rs else []) @ [EnableInvalidation]\<rparr>)"
  by (simp add: removeFromCsproj_rest_def removeEach_result enableInvalidation_def comp_defs)

lemma removeFromCsproj_result:
  assumes "rs \<noteq> []" and "\<And>s. onCall s = (Inr (), g s)"
  shows "removeFromCsproj e rs onCall s =
     (Inr (),
      (if cfg_silentDeletion e
       then (g s)\<lparr>invalidationEnabled := True,
                 xml := removed e rs (xml (g s)),
                 trace := trace (g s) @ DisableInvalidation #
                    removalEvents rs @ [EnableInvalidation]\<rparr>
       else (g s)\<lparr>invalidationEnabled := False,
                 awaiting := awaiting (g s) @ [rs],
                 trace := trace (g s) @
                    [DisableInvalidation, ShowWarningMessage (deleteMessage rs) [YES]]\<rparr>))"
proof (cases rs)
  case Nil
  with assms show ?thesis by simp
next
  case (Cons r rest)
  then show ?thesis
    using assms(2)
    by (simp add: removeFromCsproj_def removeFromCsproj_rest_result comp_defs
          disableInvalidation_def deleteMessage_def)
qed

lemma timerExpired_result:
  assumes "csprojRemovals s \<noteq> []"
  shows "timerExpired e s =
     (Inr (),
      (if cfg_silentDeletion e
       then s\<lparr>timer := None, csprojRemovals := [], invalidationEnabled := True,
              xml := removed e (csprojRemovals s) (xml s),
              trace := trace s @ DebounceInvoke # DisableInvalidation #
                 removalEvents (csprojRemovals s) @ [EnableInvalidation]\<rparr>
       else s\<lparr>timer := None, csprojRemovals := [], invalidationEnabled := False,
              awaiting := awaiting s @ [csprojRemovals s],
              trace := trace s @
                 [DebounceInvoke, DisableInvalidation,
                  ShowWarningMessage (deleteMessage (csprojRemovals s)) [YES]]\<rparr>))"
  unfolding timerExpired_def
  by (simp add: bind_def emit_def
        removeFromCsproj_result [OF assms, where g = "\<lambda>s'. s'\<lparr>csprojRemovals := []\<rparr>"])

lemma confirmationResolved_result:
  assumes "i < length (awaiting s)"
  shows "confirmationResolved e i picked s =
     (Inr (),
      s\<lparr>awaiting := take i (awaiting s) @ drop (Suc i) (awaiting s),
        invalidationEnabled := True,
        xml := (if picked = Some YES then removed e (awaiting s ! i) (xml s) else xml s),
        trace := trace s @
           (if picked = Some YES then removalEvents (awaiting s ! i) else []) @
           [EnableInvalidation]\<rparr>)"
  using assms by (simp add: confirmationResolved_def removeFromCsproj_rest_result)

text \<open>
  Neither stretch of a flush touches the files on disk: no remove command of the loop
  persists, and the flush itself never does.
\<close>

lemma timerExpired_leaves_disk:
  "csprojRemovals s \<noteq> [] \<Longrightarrow> disk (snd (timerExpired e s)) = disk s"
  by (simp add: timerExpired_result)

lemma confirmationResolved_leaves_disk:
  "disk (snd (confirmationResolved e i picked s)) = disk s"
  by (cases "i < length (awaiting s)")
     (simp_all add: confirmationResolved_result, simp add: confirmationResolved_def)

text \<open>Reading the events of a run, and what the events of the remove commands hold.\<close>

lemma since_append [simp]: "trace s' = trace s @ evs \<Longrightarrow> since s s' = evs"
  by (simp add: since_def)

lemma isToggle_removalEvents [simp]: "filter isToggle (removalEvents rs) = []"
  by (induction rs) simp_all

lemma isMessage_removalEvents [simp]: "filter isMessage (removalEvents rs) = []"
  by (induction rs) simp_all

lemma bracketed_removalEvents [simp]:
  "bracketed True (removalEvents rs @ evs) = bracketed True evs"
  by (induction rs) simp_all

lemma filter_removalEvents [simp]:
  "filter isFlush (removalEvents rs) = []"
  "filter isPrompt (removalEvents rs) = []"
  by (induction rs) simp_all

lemma filter_ForFile [simp]:
  "filter isFlush (map (\<lambda>m. ForFile (snd m)) ns) = []"
  "filter isPrompt (map (\<lambda>m. ForFile (snd m)) ns) = []"
  by (induction ns) simp_all

text \<open>What depends on a part of the state depends on nothing else.\<close>

lemma isDesiredFile_ignored:
  "p \<in> set (case ignorePaths s of None \<Rightarrow> [] | Some l \<Rightarrow> l) \<Longrightarrow> \<not> isDesiredFile e p s"
  by (simp add: isDesiredFile_def)

lemma isDesiredFile_frame:
  "ignorePaths s' = ignorePaths s \<Longrightarrow> isDesiredFile e p s' = isDesiredFile e p s"
  by (simp add: isDesiredFile_def)

lemma hasFile_frame: "xml s' = xml s \<Longrightarrow> hasFile e c p s' = hasFile e c p s"
  by (simp add: hasFile_def)

lemma listed_frame: "xml s' = xml s \<Longrightarrow> listed e s' p = listed e s p"
  by (simp add: listed_def hasFile_def split: sum.splits)

text \<open>
  The debounce on the logical clock. A notification that arrives before the deadline, for
  a file its descriptor lists, joins the batch and restarts the timer; one for a file
  that is not listed changes neither the batch nor the timer.
\<close>

lemma advance_not_due:
  "(case timer s of None \<Rightarrow> True | Some d \<Rightarrow> t < d) \<Longrightarrow> advance e t s = s\<lparr>clock := t\<rparr>"
  by (simp add: advance_def split: option.splits)

lemma onDidDelete_listed:
  assumes "listed e s p" and "case timer s of None \<Rightarrow> True | Some d \<Rightarrow> t < d"
  shows "onDidDelete e (t, p) s =
     s\<lparr>clock := t, csprojRemovals := csprojRemovals s @ [pending e p],
       timer := Some (t + debounceDeleteTime), trace := trace s @ [ForFile p]\<rparr>"
proof -
  obtain c where c: "resolve e p = Inr c" and h: "hasFile e c p s"
    using assms(1) by (auto simp: listed_def split: sum.splits)
  have h': "hasFile e c p (s\<lparr>clock := t, trace := trace s @ [ForFile p]\<rparr>)"
    using h by (simp add: hasFile_def)
  show ?thesis
    using c h'
    by (simp add: onDidDelete_def advance_not_due [OF assms(2)] handleFileDeletion_def
          forFile_def debouncedRemoveFromCsproj_def pending_def comp_defs)
qed

lemma onDidDelete_unlisted:
  assumes "\<not> listed e s p" and "case timer s of None \<Rightarrow> True | Some d \<Rightarrow> t < d"
  shows "onDidDelete e (t, p) s =
     s\<lparr>clock := t,
       trace := trace s @ ForFile p #
          (case resolve e p of Inl err \<Rightarrow> [ConsoleTrace err] | Inr c \<Rightarrow> [])\<rparr>"
proof (cases "resolve e p")
  case (Inl err)
  then show ?thesis
    by (simp add: onDidDelete_def advance_not_due [OF assms(2)] handleFileDeletion_def
          forFile_def comp_defs)
next
  case (Inr c)
  with assms(1) have "\<not> hasFile e c p (s\<lparr>clock := t, trace := trace s @ [ForFile p]\<rparr>)"
    by (simp add: listed_def hasFile_def)
  with Inr show ?thesis
    by (simp add: onDidDelete_def advance_not_due [OF assms(2)] handleFileDeletion_def
          forFile_def comp_defs)
qed

lemma deletions_collect:
  assumes "timer s = Some (t0 + debounceDeleteTime)" and "withinWindow t0 ns"
    and "\<forall>n \<in> set ns. listed e s (snd n)"
  shows "deletions e ns s =
     s\<lparr>clock := (if ns = [] then clock s else fst (last ns)),
       csprojRemovals := csprojRemovals s @ map (\<lambda>n. pending e (snd n)) ns,
       timer := Some (last (t0 # map fst ns) + debounceDeleteTime),
       trace := trace s @ map (\<lambda>n. ForFile (snd n)) ns\<rparr>"
  using assms
proof (induction ns arbitrary: s t0)
  case Nil
  then show ?case by simp
next
  case (Cons n ns)
  define s1 where "s1 = s\<lparr>clock := fst n,
       csprojRemovals := csprojRemovals s @ [pending e (snd n)],
       timer := Some (fst n + debounceDeleteTime), trace := trace s @ [ForFile (snd n)]\<rparr>"
  have due: "case timer s of None \<Rightarrow> True | Some d \<Rightarrow> fst n < d"
    using Cons.prems(1,2) by simp
  have ln: "listed e s (snd n)"
    using Cons.prems(3) by simp
  have step: "onDidDelete e n s = s1"
    using onDidDelete_listed [OF ln due] by (simp add: s1_def)
  have t1: "timer s1 = Some (fst n + debounceDeleteTime)"
    by (simp add: s1_def)
  have w1: "withinWindow (fst n) ns"
    using Cons.prems(2) by simp
  have x1: "xml s1 = xml s"
    by (simp add: s1_def)
  have l1: "\<forall>m \<in> set ns. listed e s1 (snd m)"
    using Cons.prems(3) listed_frame [OF x1] by simp
  have ih: "deletions e ns s1 =
     s1\<lparr>clock := (if ns = [] then clock s1 else fst (last ns)),
       csprojRemovals := csprojRemovals s1 @ map (\<lambda>n. pending e (snd n)) ns,
       timer := Some (last (fst n # map fst ns) + debounceDeleteTime),
       trace := trace s1 @ map (\<lambda>n. ForFile (snd n)) ns\<rparr>"
    by (rule Cons.IH [OF t1 w1 l1])
  have "deletions e (n # ns) s = deletions e ns s1"
    by (simp add: step)
  also note ih
  finally show ?case
    by (cases "ns = []") (simp_all add: s1_def)
qed

lemma deletions_from_idle:
  assumes "timer s = None" and "csprojRemovals s = []"
    and "withinWindow (fst n) ns" and "\<forall>m \<in> set (n # ns). listed e s (snd m)"
  shows "deletions e (n # ns) s =
     s\<lparr>clock := fst (last (n # ns)),
       csprojRemovals := map (\<lambda>m. pending e (snd m)) (n # ns),
       timer := Some (last (fst n # map fst ns) + debounceDeleteTime),
       trace := trace s @ map (\<lambda>m. ForFile (snd m)) (n # ns)\<rparr>"
proof -
  define s1 where "s1 = s\<lparr>clock := fst n, csprojRemovals := [pending e (snd n)],
       timer := Some (fst n + debounceDeleteTime), trace := trace s @ [ForFile (snd n)]\<rparr>"
  have due: "case timer s of None \<Rightarrow> True | Some d \<Rightarrow> fst n < d"
    using assms(1) by simp
  have ln: "listed e s (snd n)"
    using assms(4) by simp
  have step: "onDidDelete e n s = s1"
    using onDidDelete_listed [OF ln due] assms(2) by (simp add: s1_def)
  have t1: "timer s1 = Some (fst n + debounceDeleteTime)"
    by (simp add: s1_def)
  have x1: "xml s1 = xml s"
    by (simp add: s1_def)
  have l1: "\<forall>m \<in> set ns. listed e s1 (snd m)"
    using assms(4) listed_frame [OF x1] by simp
  have "deletions e (n # ns) s = deletions e ns s1"
    by (simp add: step)
  also note deletions_collect [OF t1 assms(3) l1]
  finally show ?thesis
    by (cases "ns = []") (simp_all add: s1_def)
qed

text \<open>
  A timer is pending only over a batch that is not empty: the listener and the clock
  keep it so.
\<close>

lemma handleFileDeletion_result:
  "snd (handleFileDeletion e p s) =
     (case resolve e p of
        Inl err \<Rightarrow> s\<lparr>trace := trace s @ [ForFile p, ConsoleTrace err]\<rparr>
      | Inr c \<Rightarrow>
          if hasFile e c p s
          then s\<lparr>csprojRemovals := csprojRemovals s @ [(c, p)],
                 timer := Some (clock s + debounceDeleteTime),
                 trace := trace s @ [ForFile p]\<rparr>
          else s\<lparr>trace := trace s @ [ForFile p]\<rparr>)"
proof (cases "resolve e p")
  case (Inl err)
  then show ?thesis
    by (simp add: handleFileDeletion_def forFile_def comp_defs)
next
  case (Inr c)
  have "hasFile e c p (s\<lparr>trace := trace s @ [ForFile p]\<rparr>) = hasFile e c p s"
    by (simp add: hasFile_def)
  with Inr show ?thesis
    by (simp add: handleFileDeletion_def forFile_def debouncedRemoveFromCsproj_def comp_defs)
qed

lemma advance_batch_invariant:
  assumes "timer s = None \<or> csprojRemovals s \<noteq> []"
  shows "timer (advance e t s) = None \<or> csprojRemovals (advance e t s) \<noteq> []"
proof (cases "timer s")
  case None
  then show ?thesis by (simp add: advance_def)
next
  case (Some d)
  with assms have ne: "csprojRemovals (s\<lparr>clock := d\<rparr>) \<noteq> []" by simp
  show ?thesis
    using Some assms by (simp add: advance_def timerExpired_result [OF ne])
qed

lemma onDidDelete_batch_invariant:
  assumes "timer s = None \<or> csprojRemovals s \<noteq> []"
  shows "timer (onDidDelete e n s) = None \<or> csprojRemovals (onDidDelete e n s) \<noteq> []"
  using advance_batch_invariant [OF assms, of e "fst n"]
  by (simp add: onDidDelete_def handleFileDeletion_result split: sum.splits)

text \<open>
  The add prompt dismissed: the command runs the \<^verbatim>\<open>Not Now\<close> action, which only calls
  the status bar.
\<close>

lemma add_prompt_dismissed:
  assumes el: "eligible p" and res: "resolve e p = Inr c" and nf: "\<not> hasFile e c p s"
    and dis: "answer e (basename p @ '' is not in '' @ name c @
                '', would you like to add it?'') [YES, NEVER] = None"
  shows "fst (csprojCommand e p True s) = Inr () \<and>
         xml (snd (csprojCommand e p True s)) = xml s \<and>
         disk (snd (csprojCommand e p True s)) = disk s \<and>
         ignorePaths (snd (csprojCommand e p True s)) = ignorePaths s \<and>
         filter isMutation (since s (snd (csprojCommand e p True s))) = []"
proof -
  let ?msg = "basename p @ '' is not in '' @ name c @ '', would you like to add it?''"
  let ?s2 = "s\<lparr>trace := trace s @
               [ConsoleLog (''extension.csproj#trigger('' @ basename p @ '')''),
                ForFile p, ShowInformationMessage ?msg [YES, NEVER]]\<rparr>"
  obtain r s3 where call:
    "StatusBar_call e ''displayItem'' [Str (name c), Bool False] ?s2 = (r, s3)"
    by (cases "StatusBar_call e ''displayItem'' [Str (name c), Bool False] ?s2")
  have keeps: "trace s3 = trace ?s2" "xml s3 = xml s" "disk s3 = disk s"
    "ignorePaths s3 = ignorePaths s"
    using StatusBar_call_keeps [of e "''displayItem''" "[Str (name c), Bool False]" ?s2] call
    by simp_all
  have nf': "\<not> hasFile e c p
      (s\<lparr>trace := trace s @
            [ConsoleLog (''extension.csproj#trigger('' @ basename p @ '')''), ForFile p]\<rparr>)"
    using nf by (simp add: hasFile_def)
  show ?thesis
  proof (cases r)
    case (Inl err)
    then show ?thesis
      using el res nf' dis call keeps
      by (simp add: eligible_def csprojCommand_def csprojCommand_try_def forFile_def
            showInformationMessage_def showErrorMessage_def pickedAction_def action_NO_def
            comp_defs Let_def since_def)
  next
    case (Inr v)
    then show ?thesis
      using el res nf' dis call keeps
      by (simp add: eligible_def csprojCommand_def csprojCommand_try_def forFile_def
            showInformationMessage_def showErrorMessage_def pickedAction_def action_NO_def
            comp_defs Let_def since_def)
  qed
qed

lemma show_nat_2: "show_nat (Suc (Suc 0)) = ''2''"
  by (simp add: show_nat.simps digit_def)

lemma show_nat_3: "show_nat (Suc (Suc (Suc 0))) = ''3''"
  by (simp add: show_nat.simps digit_def)

lemma show_nat_12: "show_nat 12 = ''12''"
  by code_simp

text \<open>
  The numeral that \<open>show_nat\<close> prints is made of decimal digits and reads back as the
  number.
\<close>

lemma digit_value_digit: "digit_value (digit d) = d mod 10"
proof -
  have "d mod 10 = 0 \<or> d mod 10 = 1 \<or> d mod 10 = 2 \<or> d mod 10 = 3 \<or> d mod 10 = 4 \<or>
        d mod 10 = 5 \<or> d mod 10 = 6 \<or> d mod 10 = 7 \<or> d mod 10 = 8 \<or> d mod 10 = 9"
    by presburger
  then show ?thesis
    by (auto simp add: digit_def digit_value_def)
qed

lemma decimal_value_snoc:
  "decimal_value (ds @ [c]) = 10 * decimal_value ds + digit_value c"
  by (simp add: decimal_value_def)

lemma decimal_value_show_nat: "decimal_value (show_nat n) = n"
proof (induction n rule: show_nat.induct)
  case (1 n)
  show ?case
  proof (cases "n < 10")
    case True
    then show ?thesis
      by (subst show_nat.simps) (simp add: decimal_value_def digit_value_digit)
  next
    case False
    then have "decimal_value (show_nat (n div 10)) = n div 10"
      using "1.IH" by simp
    with False show ?thesis
      by (subst show_nat.simps) (simp add: decimal_value_snoc digit_value_digit)
  qed
qed

lemma digit_is_digit: "isDigit (digit d)"
proof -
  have "d mod 10 = 0 \<or> d mod 10 = 1 \<or> d mod 10 = 2 \<or> d mod 10 = 3 \<or> d mod 10 = 4 \<or>
        d mod 10 = 5 \<or> d mod 10 = 6 \<or> d mod 10 = 7 \<or> d mod 10 = 8 \<or> d mod 10 = 9"
    by presburger
  then show ?thesis
    by (auto simp add: digit_def isDigit_def)
qed

lemma show_nat_digits: "list_all isDigit (show_nat n)"
proof (induction n rule: show_nat.induct)
  case (1 n)
  show ?case
  proof (cases "n < 10")
    case True
    then show ?thesis
      using digit_is_digit [of n] by (subst show_nat.simps) simp
  next
    case False
    with "1.IH" show ?thesis
      using digit_is_digit [of n] by (subst show_nat.simps) simp
  qed
qed

text \<open>
  The explicit remove command (no descriptor passed) never touches the invalidation
  flag, whether the descriptor resolves or not and whether the write fails or not.
\<close>

lemma csprojRemoveCommand_never_toggles:
  "invalidationEnabled (snd (csprojRemoveCommand e p None s)) = invalidationEnabled s \<and>
   filter isToggle (since s (snd (csprojRemoveCommand e p None s))) = []"
  by (cases "resolve e p"; cases "write_error e (fsPath (projr (resolve e p)))")
     (auto simp add: csprojRemoveCommand_def forFile_def removeFile_def persist_def
        showErrorMessage_def comp_defs since_def)

subsection \<open>The flush of a deletion batch\<close>

text \<open>
  C1 fails on the code. One deletion of \<^verbatim>\<open>/D/a.ts\<close>, listed in \<^verbatim>\<open>/D/App.csproj\<close>, the
  timer running out and the user answering Yes: the entry leaves the tree in memory, the
  trace of the flush holds the remove command and no write, and when invalidation is
  enabled again the file on disk still lists \<^verbatim>\<open>a.ts\<close>. The remove command skips the
  write for a descriptor it is handed, on the assumption that its caller persists, and
  the flush, its caller, does not.
\<close>

theorem confirmed_batch_is_removed_but_never_persisted:
  "trace (snd (confirmationResolved example_env 0 (Some YES)
     (advance example_env 2000 (deletions example_env [(0, ''/D/a.ts'')] example_state)))) =
     [ForFile ''/D/a.ts'', DebounceInvoke, DisableInvalidation,
      ShowWarningMessage ''a.ts was deleted. Remove it from App.csproj?'' [''Yes''],
      ExecuteCommand ''extension.csproj.remove'' ''/D/a.ts'',
      RemoveFile ''/D/App.csproj'' ''/D/a.ts'', EnableInvalidation] \<and>
   xml (snd (confirmationResolved example_env 0 (Some YES)
     (advance example_env 2000 (deletions example_env [(0, ''/D/a.ts'')] example_state))))
     ''/D/App.csproj'' = [(''b.png'', ''Content'')] \<and>
   disk (snd (confirmationResolved example_env 0 (Some YES)
     (advance example_env 2000 (deletions example_env [(0, ''/D/a.ts'')] example_state))))
     ''/D/App.csproj'' = [(''a.ts'', ''TypeScriptCompile''), (''b.png'', ''Content'')] \<and>
   invalidationEnabled (snd (confirmationResolved example_env 0 (Some YES)
     (advance example_env 2000 (deletions example_env [(0, ''/D/a.ts'')] example_state))))"
  by code_simp




text \<open>
  C7, as stated, at a file deleted twice within the quiet window (deleted, restored and
  deleted again while its entry is still listed): the pending set holds one removal, for
  which the claim has the message that names the file and its descriptor, and the
  confirmation the code shows counts two files.
\<close>

theorem repeated_deletion_counted_twice_counterexample:
  "csprojRemovals (deletions example_env [(0, ''/D/a.ts''), (500, ''/D/a.ts'')] example_state) =
     [(App, ''/D/a.ts''), (App, ''/D/a.ts'')] \<and>
   filter isPrompt
     (trace (advance example_env 2500
        (deletions example_env [(0, ''/D/a.ts''), (500, ''/D/a.ts'')] example_state))) =
     [ShowWarningMessage ''2 files were deleted. Remove them from csproj?'' [''Yes'']] \<and>
   confirmationMessage_spec
     (csprojRemovals (deletions example_env [(0, ''/D/a.ts''), (500, ''/D/a.ts'')] example_state)) =
     ''a.ts was deleted. Remove it from App.csproj?''"
  by code_simp

text \<open>
  C7, amended: the batch is counted as it was queued, a file that was notified twice
  counting twice. On the flush of a batch, with silent deletion off, the only message is
  one confirmation offering Yes: when the batch holds more than one queued removal it
  states their number, printed in decimal digits that read back as that number; when it
  holds exactly one it names the file and its descriptor. With silent deletion on there
  is no message and no confirmation to wait for, and every pair of the batch is removed
  from its tree, the trees and the mutations being those of a flush whose confirmation
  is answered Yes.
\<close>

theorem flush_confirmation_message:
  "csprojRemovals s \<noteq> [] \<Longrightarrow>
   (\<not> cfg_silentDeletion e \<and> length (csprojRemovals s) > 1 \<longrightarrow>
      filter isMessage (since s (snd (timerExpired e s))) =
        [ShowWarningMessage
           (show_nat (length (csprojRemovals s)) @
            '' files were deleted. Remove them from csproj?'') [YES]]) \<and>
   decimal_value (show_nat (length (csprojRemovals s))) = length (csprojRemovals s) \<and>
   list_all isDigit (show_nat (length (csprojRemovals s))) \<and>
   (\<not> cfg_silentDeletion e \<and> csprojRemovals s = [(c, f)] \<longrightarrow>
      filter isMessage (since s (snd (timerExpired e s))) =
        [ShowWarningMessage
           (basename f @ '' was deleted. Remove it from '' @ name c @ ''?'') [YES]]) \<and>
   (cfg_silentDeletion e \<longrightarrow>
      filter isMessage (since s (snd (timerExpired e s))) = [] \<and>
      awaiting (snd (timerExpired e s)) = awaiting s \<and>
      xml (snd (timerExpired e s)) = removed e (csprojRemovals s) (xml s) \<and>
      filter isMutation (since s (snd (timerExpired e s))) =
        filter isMutation (removalEvents (csprojRemovals s))) \<and>
   (\<not> cfg_silentDeletion e \<longrightarrow>
      xml (snd (confirmationResolved e (length (awaiting s)) (Some YES)
                  (snd (timerExpired e s)))) = removed e (csprojRemovals s) (xml s) \<and>
      filter isMutation
        (since s (snd (confirmationResolved e (length (awaiting s)) (Some YES)
                         (snd (timerExpired e s))))) =
        filter isMutation (removalEvents (csprojRemovals s)))"
  by (auto simp add: timerExpired_result confirmationResolved_result deleteMessage_def
        multiDeleteMessage_def singleDeleteMessage_def decimal_value_show_nat show_nat_digits
        since_def)

text \<open>
  C7, amended, at batches of one, two, three and twelve queued removals (the three are
  two files, one of them queued twice, and the twelve are one file queued twelve
  times), and at a batch of two under silent deletion.
\<close>

theorem flush_confirmation_message_witness:
  "\<not> cfg_silentDeletion example_env \<and>
   csprojRemovals collecting_state = [(App, ''/D/a.ts'')] \<and>
   filter isMessage (since collecting_state (snd (timerExpired example_env collecting_state))) =
     [ShowWarningMessage ''a.ts was deleted. Remove it from App.csproj?'' [''Yes'']] \<and>
   length (csprojRemovals collecting_two) > 1 \<and>
   filter isMessage (since collecting_two (snd (timerExpired example_env collecting_two))) =
     [ShowWarningMessage ''2 files were deleted. Remove them from csproj?'' [''Yes'']] \<and>
   length (csprojRemovals collecting_three) > 1 \<and>
   filter isMessage (since collecting_three (snd (timerExpired example_env collecting_three))) =
     [ShowWarningMessage ''3 files were deleted. Remove them from csproj?'' [''Yes'']] \<and>
   length (csprojRemovals collecting_twelve) > 1 \<and>
   filter isMessage (since collecting_twelve (snd (timerExpired example_env collecting_twelve))) =
     [ShowWarningMessage ''12 files were deleted. Remove them from csproj?'' [''Yes'']] \<and>
   decimal_value ''12'' = length (csprojRemovals collecting_twelve) \<and>
   cfg_silentDeletion silent_env \<and>
   filter isMessage (since collecting_two (snd (timerExpired silent_env collecting_two))) = [] \<and>
   xml (snd (timerExpired silent_env collecting_two)) ''/D/App.csproj'' = [] \<and>
   xml (snd (confirmationResolved example_env 0 (Some YES)
               (snd (timerExpired example_env collecting_two)))) ''/D/App.csproj'' = []"
proof -
  have ne: "csprojRemovals collecting_state \<noteq> []" "csprojRemovals collecting_two \<noteq> []"
    "csprojRemovals collecting_three \<noteq> []" "csprojRemovals collecting_twelve \<noteq> []"
    by (simp_all add: collecting_state_def collecting_two_def collecting_three_def
          collecting_twelve_def)
  have len: "length (csprojRemovals collecting_twelve) = 12"
    by (simp add: collecting_twelve_def)
  show ?thesis
    using flush_confirmation_message [OF ne(1), of example_env App "''/D/a.ts''"]
      flush_confirmation_message [OF ne(2), of example_env App "''/D/a.ts''"]
      flush_confirmation_message [OF ne(3), of example_env App "''/D/a.ts''"]
      flush_confirmation_message [OF ne(4), of example_env App "''/D/a.ts''"]
      flush_confirmation_message [OF ne(2), of silent_env App "''/D/a.ts''"]
    by (simp add: len show_nat_12)
       (simp add: collecting_state_def collecting_two_def collecting_three_def
          example_state_def example_env_def silent_env_def App_def basename_def YES_def
          show_nat_2 show_nat_3 example_items_def)
qed

subsection \<open>Dismissed prompts\<close>

text \<open>
  C5: when the add prompt resolves to no choice, the add command ends with the trees,
  the files on disk and the ignore list as they were and with no add, remove or write
  among its events. A flush, with silent deletion off, shows its confirmation without
  having mutated anything; when the confirmation resolves to no choice (or to anything
  but Yes), the flush ends with the trees and the files as they were and no mutation
  among its events, and the batch is discarded. The action taken for no choice is the
  \<^verbatim>\<open>Not Now\<close> action.
\<close>

theorem dismissed_prompt_declines:
  "(eligible p \<and> resolve e p = Inr c \<and> \<not> hasFile e c p s \<and>
    answer e (basename p @ '' is not in '' @ name c @ '', would you like to add it?'')
      [YES, NEVER] = None \<longrightarrow>
      fst (csprojCommand e p True s) = Inr () \<and>
      xml (snd (csprojCommand e p True s)) = xml s \<and>
      disk (snd (csprojCommand e p True s)) = disk s \<and>
      ignorePaths (snd (csprojCommand e p True s)) = ignorePaths s \<and>
      filter isMutation (since s (snd (csprojCommand e p True s))) = []) \<and>
   (csprojRemovals s \<noteq> [] \<and> \<not> cfg_silentDeletion e \<longrightarrow>
      fst (timerExpired e s) = Inr () \<and>
      xml (snd (timerExpired e s)) = xml s \<and>
      disk (snd (timerExpired e s)) = disk s \<and>
      csprojRemovals (snd (timerExpired e s)) = [] \<and>
      filter isMutation (since s (snd (timerExpired e s))) = [] \<and>
      fst (confirmationResolved e (length (awaiting s)) None (snd (timerExpired e s))) = Inr () \<and>
      xml (snd (confirmationResolved e (length (awaiting s)) None (snd (timerExpired e s)))) =
        xml s \<and>
      disk (snd (confirmationResolved e (length (awaiting s)) None (snd (timerExpired e s)))) =
        disk s \<and>
      csprojRemovals
        (snd (confirmationResolved e (length (awaiting s)) None (snd (timerExpired e s)))) = [] \<and>
      awaiting
        (snd (confirmationResolved e (length (awaiting s)) None (snd (timerExpired e s)))) =
        awaiting s \<and>
      filter isMutation
        (since s (snd (confirmationResolved e (length (awaiting s)) None
                         (snd (timerExpired e s))))) = []) \<and>
   (i < length (awaiting s') \<and> picked \<noteq> Some YES \<longrightarrow>
      fst (confirmationResolved e i picked s') = Inr () \<and>
      xml (snd (confirmationResolved e i picked s')) = xml s' \<and>
      disk (snd (confirmationResolved e i picked s')) = disk s' \<and>
      awaiting (snd (confirmationResolved e i picked s')) =
        take i (awaiting s') @ drop (Suc i) (awaiting s') \<and>
      filter isMutation (since s' (snd (confirmationResolved e i picked s'))) = []) \<and>
   pickedAction None = action_NO"
  using add_prompt_dismissed [of p e c s]
  by (simp add: timerExpired_result confirmationResolved_result pickedAction_def since_def)

text \<open>
  C5 at the unlisted file \<^verbatim>\<open>/D/c.ts\<close>, the user dismissing the add prompt, and at a
  batch of one whose confirmation the user dismisses.
\<close>

theorem dismissed_prompt_declines_witness:
  "eligible ''/D/c.ts'' \<and> resolve dismissing_env ''/D/c.ts'' = Inr App \<and>
   \<not> hasFile dismissing_env App ''/D/c.ts'' example_state \<and>
   answer dismissing_env ''c.ts is not in App.csproj, would you like to add it?''
     [YES, NEVER] = None \<and>
   xml (snd (csprojCommand dismissing_env ''/D/c.ts'' True example_state)) = xml example_state \<and>
   filter isMutation
     (since example_state (snd (csprojCommand dismissing_env ''/D/c.ts'' True example_state))) = [] \<and>
   csprojRemovals collecting_state \<noteq> [] \<and> \<not> cfg_silentDeletion dismissing_env \<and>
   xml (snd (confirmationResolved dismissing_env 0 None
               (snd (timerExpired dismissing_env collecting_state)))) = xml collecting_state \<and>
   filter isMutation
     (since collecting_state
        (snd (confirmationResolved dismissing_env 0 None
                (snd (timerExpired dismissing_env collecting_state))))) = [] \<and>
   filter isPrompt
     (since collecting_state
        (snd (confirmationResolved dismissing_env 0 None
                (snd (timerExpired dismissing_env collecting_state))))) =
     [ShowWarningMessage ''a.ts was deleted. Remove it from App.csproj?'' [''Yes'']]"
proof -
  have h1: "eligible ''/D/c.ts''"
    by (simp add: eligible_def endsWith_def hasSeparator_def)
  have h2: "resolve dismissing_env ''/D/c.ts'' = Inr App"
    by (simp add: dismissing_env_def example_env_def)
  have h3: "\<not> hasFile dismissing_env App ''/D/c.ts'' example_state"
    by (simp add: hasFile_def dismissing_env_def example_env_def example_state_def App_def
          example_items_def)
  have h4: "answer dismissing_env
      (basename ''/D/c.ts'' @ '' is not in '' @ name App @ '', would you like to add it?'')
      [YES, NEVER] = None"
    by (simp add: answer_def dismissing_env_def)
  have h4': "answer dismissing_env ''c.ts is not in App.csproj, would you like to add it?''
      [YES, NEVER] = None"
    by (simp add: answer_def dismissing_env_def)
  have h5: "csprojRemovals collecting_state \<noteq> []"
    by (simp add: collecting_state_def)
  have h6: "\<not> cfg_silentDeletion dismissing_env"
    by (simp add: dismissing_env_def example_env_def)
  have h7: "length (awaiting collecting_state) = 0"
    by (simp add: collecting_state_def example_state_def)
  have p: "filter isPrompt
     (since collecting_state
        (snd (confirmationResolved dismissing_env 0 None
                (snd (timerExpired dismissing_env collecting_state))))) =
     [ShowWarningMessage ''a.ts was deleted. Remove it from App.csproj?'' [''Yes'']]"
    by code_simp
  show ?thesis
    using dismissed_prompt_declines
            [where p = "''/D/c.ts''" and e = dismissing_env and c = App and s = example_state]
      dismissed_prompt_declines
            [where p = "''/D/c.ts''" and e = dismissing_env and c = App and s = collecting_state]
      h1 h2 h3 h4 h4' h5 h6 h7 p
    by simp
qed

subsection \<open>A file with no descriptor\<close>

text \<open>
  C6: when the resolution fails with \<open>NoCsprojError\<close>, the add command logs to the
  console and shows no message, and the explicit remove command shows the error message
  \<^verbatim>\<open>Unable to locate csproj for file: ...\<close>; when the resolution of the add command
  fails with another error, or anything else in its \<^verbatim>\<open>try\<close> block throws another error,
  the add command shows that error's text as an error message.
\<close>

theorem missing_descriptor_handling:
  "(eligible p \<and> resolve e p = Inl (NoCsprojError m) \<longrightarrow>
      csprojCommand e p prompt s =
        (Inr (), s\<lparr>trace := trace s @
           [ConsoleLog (''extension.csproj#trigger('' @ basename p @ '')''),
            ForFile p,
            ConsoleLog (''extension.csproj#trigger('' @ basename p @ ''): no csproj found'')]\<rparr>)) \<and>
   (resolve e p = Inl (NoCsprojError m) \<longrightarrow>
      csprojRemoveCommand e p None s =
        (Inr (), s\<lparr>trace := trace s @
           [ForFile p,
            ShowErrorMessage (''Unable to locate csproj for file: '' @ basename p)]\<rparr>)) \<and>
   (eligible p \<and> resolve e p = Inl (OtherError m) \<longrightarrow>
      csprojCommand e p prompt s =
        (Inr (), s\<lparr>trace := trace s @
           [ConsoleLog (''extension.csproj#trigger('' @ basename p @ '')''),
            ForFile p, ShowErrorMessage m, ConsoleTrace (OtherError m)]\<rparr>)) \<and>
   (eligible p \<and> \<not> isNoCsprojError err \<and>
    csprojCommand_try e p (basename p) prompt
      (s\<lparr>trace := trace s @
           [ConsoleLog (''extension.csproj#trigger('' @ basename p @ '')'')]\<rparr>) = (Inl err, s') \<longrightarrow>
      csprojCommand e p prompt s =
        (Inr (), s'\<lparr>trace := trace s' @ [ShowErrorMessage (toString err), ConsoleTrace err]\<rparr>))"
  by (simp add: eligible_def csprojCommand_def csprojCommand_try_def csprojRemoveCommand_def
        forFile_def showErrorMessage_def comp_defs Let_def)

text \<open>
  C6 at \<^verbatim>\<open>/E/a.ts\<close>, which has no descriptor, at \<^verbatim>\<open>/D/c.ts\<close> under a descriptor that
  cannot be parsed, and at \<^verbatim>\<open>/D/c.ts\<close> under a descriptor that cannot be written.
\<close>

theorem missing_descriptor_handling_witness:
  "eligible ''/E/a.ts'' \<and> resolve example_env ''/E/a.ts'' = Inl (NoCsprojError ''NoCsprojError'') \<and>
   filter isMessage (trace (snd (csprojCommand example_env ''/E/a.ts'' True example_state))) = [] \<and>
   filter isMessage (trace (snd (csprojRemoveCommand example_env ''/E/a.ts'' None example_state))) =
     [ShowErrorMessage ''Unable to locate csproj for file: a.ts''] \<and>
   eligible ''/D/c.ts'' \<and> resolve broken_env ''/D/c.ts'' = Inl (OtherError ''Error: cannot parse'') \<and>
   filter isMessage (trace (snd (csprojCommand broken_env ''/D/c.ts'' True example_state))) =
     [ShowErrorMessage ''Error: cannot parse''] \<and>
   fst (csprojCommand_try readonly_env ''/D/c.ts'' ''c.ts'' True
          (example_state\<lparr>trace := [ConsoleLog ''extension.csproj#trigger(c.ts)'']\<rparr>)) =
     Inl (OtherError ''Error: EACCES'') \<and>
   ShowErrorMessage ''Error: EACCES'' \<in>
     set (trace (snd (csprojCommand readonly_env ''/D/c.ts'' True example_state)))"
proof -
  let ?s = "example_state\<lparr>trace := trace example_state @
              [ConsoleLog (''extension.csproj#trigger('' @ basename ''/D/c.ts'' @ '')'')]\<rparr>"
  have h1: "eligible ''/E/a.ts''" "eligible ''/D/c.ts''"
    by (simp_all add: eligible_def endsWith_def hasSeparator_def)
  have h2: "resolve example_env ''/E/a.ts'' = Inl (NoCsprojError ''NoCsprojError'')"
    by (simp add: example_env_def)
  have h3: "resolve broken_env ''/D/c.ts'' = Inl (OtherError ''Error: cannot parse'')"
    by (simp add: broken_env_def)
  have first: "filter isMessage
       (trace (snd (csprojCommand example_env ''/E/a.ts'' True example_state))) = [] \<and>
     filter isMessage
       (trace (snd (csprojRemoveCommand example_env ''/E/a.ts'' None example_state))) =
       [ShowErrorMessage ''Unable to locate csproj for file: a.ts''] \<and>
     filter isMessage (trace (snd (csprojCommand broken_env ''/D/c.ts'' True example_state))) =
       [ShowErrorMessage ''Error: cannot parse'']"
    using missing_descriptor_handling
            [of "''/E/a.ts''" example_env "''NoCsprojError''" True example_state]
      missing_descriptor_handling
            [of "''/D/c.ts''" broken_env "''Error: cannot parse''" True example_state]
      h1 h2 h3
    by (simp add: example_state_def basename_def)
  have f: "fst (csprojCommand_try readonly_env ''/D/c.ts'' (basename ''/D/c.ts'') True ?s) =
      Inl (OtherError ''Error: EACCES'')"
    by code_simp
  then have h4: "csprojCommand_try readonly_env ''/D/c.ts'' (basename ''/D/c.ts'') True ?s =
      (Inl (OtherError ''Error: EACCES''),
       snd (csprojCommand_try readonly_env ''/D/c.ts'' (basename ''/D/c.ts'') True ?s))"
    by (metis prod.collapse)
  have "csprojCommand readonly_env ''/D/c.ts'' True example_state =
      (Inr (), (snd (csprojCommand_try readonly_env ''/D/c.ts'' (basename ''/D/c.ts'') True ?s))
        \<lparr>trace := trace (snd (csprojCommand_try readonly_env ''/D/c.ts''
                               (basename ''/D/c.ts'') True ?s)) @
             [ShowErrorMessage (toString (OtherError ''Error: EACCES'')),
              ConsoleTrace (OtherError ''Error: EACCES'')]\<rparr>)"
    using missing_descriptor_handling
            [of "''/D/c.ts''" readonly_env "''x''" True example_state
              "OtherError ''Error: EACCES''"
              "snd (csprojCommand_try readonly_env ''/D/c.ts'' (basename ''/D/c.ts'') True ?s)"]
      h1 h4
    by simp
  then have last: "ShowErrorMessage ''Error: EACCES'' \<in>
     set (trace (snd (csprojCommand readonly_env ''/D/c.ts'' True example_state)))"
    by simp
  have f': "fst (csprojCommand_try readonly_env ''/D/c.ts'' ''c.ts'' True
          (example_state\<lparr>trace := [ConsoleLog ''extension.csproj#trigger(c.ts)'']\<rparr>)) =
     Inl (OtherError ''Error: EACCES'')"
    using f by (simp add: basename_def example_state_def)
  from h1 h2 h3 first last f' show ?thesis
    by blast
qed

subsection \<open>The ignore list\<close>

text \<open>
  C8: for a path on the ignore list, the save listener does nothing at all, and the
  listener of the active editor adds no event (so executes no command) and leaves the
  trees and the files as they were.
\<close>

theorem ignored_path_never_auto_added:
  assumes "p \<in> set (case ignorePaths s of None \<Rightarrow> [] | Some l \<Rightarrow> l)"
  shows "onDidSaveTextDocument e p s = (Inr (), s) \<and>
         since s (snd (onDidSaveTextDocument e p s)) = [] \<and>
         since s (snd (onDidChangeActiveTextEditor e (Some p) s)) = [] \<and>
         xml (snd (onDidChangeActiveTextEditor e (Some p) s)) = xml s \<and>
         disk (snd (onDidChangeActiveTextEditor e (Some p) s)) = disk s"
proof -
  have save: "onDidSaveTextDocument e p s = (Inr (), s)"
    using isDesiredFile_ignored [OF assms, of e]
    by (simp add: onDidSaveTextDocument_def ignoreEvent_def comp_defs)
  obtain r s1 where call: "StatusBar_call e ''hideItem'' [] s = (r, s1)"
    by (cases "StatusBar_call e ''hideItem'' [] s")
  have keeps: "trace s1 = trace s" "xml s1 = xml s" "disk s1 = disk s"
    "ignorePaths s1 = ignorePaths s"
    using StatusBar_call_keeps [of e "''hideItem''" "[]" s] call by simp_all
  have "\<not> isDesiredFile e p s1"
    using isDesiredFile_ignored [OF assms, of e] isDesiredFile_frame [OF keeps(4), of e p]
    by simp
  then have "snd (onDidChangeActiveTextEditor e (Some p) s) = s1"
    using call
    by (cases r) (simp_all add: onDidChangeActiveTextEditor_def ignoreEvent_def comp_defs)
  with save keeps show ?thesis by (simp add: since_def)
qed

text \<open>C8 at \<^verbatim>\<open>/D/c.ts\<close>, on the ignore list.\<close>

theorem ignored_path_never_auto_added_witness:
  "''/D/c.ts'' \<in> set (case ignorePaths ignoring_state of None \<Rightarrow> [] | Some l \<Rightarrow> l) \<and>
   onDidSaveTextDocument example_env ''/D/c.ts'' ignoring_state = (Inr (), ignoring_state) \<and>
   since ignoring_state
     (snd (onDidChangeActiveTextEditor example_env (Some ''/D/c.ts'') ignoring_state)) = []"
  using ignored_path_never_auto_added [of "''/D/c.ts''" ignoring_state example_env]
  by (simp add: ignoring_state_def)

subsection \<open>The debounce\<close>

text \<open>
  C4, as stated, at three notifications 1500 ms apart, the second for a file its
  descriptor does not list: each arrives within the quiet window of the one before, and
  the timer, which the second did not restart, runs out between the second and the
  third, so there are two flushes and two confirmations.
\<close>

theorem unlisted_deletion_splits_batch_counterexample:
  "withinWindow 0 [(1500, ''/D/zz.ts''), (3000, ''/D/b.png'')] \<and>
   filter isFlush
     (trace (advance example_env 10000
        (deletions example_env
           [(0, ''/D/a.ts''), (1500, ''/D/zz.ts''), (3000, ''/D/b.png'')] example_state))) =
     [DebounceInvoke, DebounceInvoke] \<and>
   length (filter isPrompt
     (trace (advance example_env 10000
        (deletions example_env
           [(0, ''/D/a.ts''), (1500, ''/D/zz.ts''), (3000, ''/D/b.png'')] example_state)))) = 2"
  by code_simp

text \<open>
  C4, amended: from the idle state, for every sequence of one or more deletion
  notifications, each for a file that its descriptor lists and each arriving within the
  quiet window of the one before, the timer is pending after the last of them with its
  deadline one quiet window after it, no flush happens before that deadline, and once
  the deadline is reached there has been exactly one flush for the whole sequence, with
  exactly one confirmation (none under silent deletion), naming the whole batch, and the
  batcher is idle again.
\<close>

theorem listed_deletions_flush_once:
  assumes "timer s = None" and "csprojRemovals s = []"
    and "withinWindow (fst n) ns" and "\<forall>m \<in> set (n # ns). listed e s (snd m)"
  shows "timer (deletions e (n # ns) s) = Some (last (fst n # map fst ns) + debounceDeleteTime) \<and>
     filter isFlush (since s (deletions e (n # ns) s)) = [] \<and>
     (T < last (fst n # map fst ns) + debounceDeleteTime \<longrightarrow>
        filter isFlush (since s (advance e T (deletions e (n # ns) s))) = []) \<and>
     (last (fst n # map fst ns) + debounceDeleteTime \<le> T \<longrightarrow>
        filter isFlush (since s (advance e T (deletions e (n # ns) s))) = [DebounceInvoke] \<and>
        filter isPrompt (since s (advance e T (deletions e (n # ns) s))) =
          (if cfg_silentDeletion e then []
           else [ShowWarningMessage
                   (deleteMessage (map (\<lambda>m. pending e (snd m)) (n # ns))) [YES]]) \<and>
        timer (advance e T (deletions e (n # ns) s)) = None \<and>
        csprojRemovals (advance e T (deletions e (n # ns) s)) = [])"
proof -
  define D where "D = last (fst n # map fst ns) + debounceDeleteTime"
  define s2 where "s2 = deletions e (n # ns) s"
  have s2: "s2 = s\<lparr>clock := fst (last (n # ns)),
       csprojRemovals := map (\<lambda>m. pending e (snd m)) (n # ns),
       timer := Some D,
       trace := trace s @ map (\<lambda>m. ForFile (snd m)) (n # ns)\<rparr>"
    unfolding s2_def D_def by (rule deletions_from_idle [OF assms])
  have a: "timer s2 = Some D"
    by (simp add: s2)
  have b: "filter isFlush (since s s2) = []"
    by (simp add: s2 since_def)
  have c: "T < D \<Longrightarrow> filter isFlush (since s (advance e T s2)) = []"
    by (simp add: advance_def a) (simp add: s2 since_def)
  have ne: "csprojRemovals (s2\<lparr>clock := D\<rparr>) \<noteq> []"
    by (simp add: s2)
  have tr: "trace (s2\<lparr>clock := D\<rparr>) = trace s @ map (\<lambda>m. ForFile (snd m)) (n # ns)"
    by (simp add: s2)
  have rm: "csprojRemovals (s2\<lparr>clock := D\<rparr>) = map (\<lambda>m. pending e (snd m)) (n # ns)"
    by (simp add: s2)
  have adv: "D \<le> T \<Longrightarrow> advance e T s2 = (snd (timerExpired e (s2\<lparr>clock := D\<rparr>)))\<lparr>clock := T\<rparr>"
    by (simp add: advance_def a)
  have d: "D \<le> T \<Longrightarrow>
        filter isFlush (since s (advance e T s2)) = [DebounceInvoke] \<and>
        filter isPrompt (since s (advance e T s2)) =
          (if cfg_silentDeletion e then []
           else [ShowWarningMessage
                   (deleteMessage (map (\<lambda>m. pending e (snd m)) (n # ns))) [YES]]) \<and>
        timer (advance e T s2) = None \<and>
        csprojRemovals (advance e T s2) = []"
    unfolding adv timerExpired_result [OF ne] rm
    by (simp add: since_def tr)
  from a b c d show ?thesis
    unfolding s2_def D_def by blast
qed

text \<open>C4, amended, at two listed files deleted 1500 ms apart.\<close>

theorem listed_deletions_flush_once_witness:
  "timer example_state = None \<and> csprojRemovals example_state = [] \<and>
   withinWindow 0 [(1500, ''/D/b.png'')] \<and>
   listed example_env example_state ''/D/a.ts'' \<and>
   listed example_env example_state ''/D/b.png'' \<and>
   filter isFlush (since example_state (advance example_env 3500
     (deletions example_env [(0, ''/D/a.ts''), (1500, ''/D/b.png'')] example_state))) =
     [DebounceInvoke] \<and>
   filter isPrompt (since example_state (advance example_env 3500
     (deletions example_env [(0, ''/D/a.ts''), (1500, ''/D/b.png'')] example_state))) =
     [ShowWarningMessage ''2 files were deleted. Remove them from csproj?'' [''Yes'']]"
proof -
  have h1: "timer example_state = None" "csprojRemovals example_state = []"
    by (simp_all add: example_state_def)
  have h2: "withinWindow (fst (0, ''/D/a.ts'')) [(1500, ''/D/b.png'')]"
    by (simp add: debounceDeleteTime_def)
  have l: "listed example_env example_state ''/D/a.ts''"
    "listed example_env example_state ''/D/b.png''"
    by (simp_all add: listed_def hasFile_def example_env_def example_state_def App_def
          example_items_def)
  have h3: "\<forall>m \<in> set [(0, ''/D/a.ts''), (1500, ''/D/b.png'')].
      listed example_env example_state (snd m)"
    using l by simp
  have m: "deleteMessage (map (\<lambda>m. pending example_env (snd m))
             [(0::nat, ''/D/a.ts''), (1500, ''/D/b.png'')]) =
           ''2 files were deleted. Remove them from csproj?''"
    by (simp add: deleteMessage_def multiDeleteMessage_def show_nat_2)
  show ?thesis
    using listed_deletions_flush_once [OF h1 h2 h3, of 3500] h1 h2 l m
    by (simp add: debounceDeleteTime_def example_env_def YES_def)
qed

end
